theory Spec2Isabelle
  imports Complex_Main
begin

section \<open>Python values\<close>

text \<open>
  The values a parameter can hold. A Python \<open>float\<close> is an exact real number or
  not-a-number (rounding and the infinities are left out); \<open>bool\<close> is kept apart from
  \<open>int\<close> although Python compares them by value (\<open>py_eq\<close> below does the same).
\<close>

datatype scalar = PNone | PBool bool | PInt int | PFloat real | PNaN | PStr string

text \<open>Keys of mappings, row keys and column labels: integers (years) or strings.\<close>

datatype key = KInt int | KStr string

text \<open>
  What \<open>yaml.safe_load\<close> gives for a parameter: a scalar or a mapping (a Python
  \<open>dict\<close>, in insertion order).
\<close>

datatype yaml = YScalar scalar | YMap "(key \<times> yaml) list"

text \<open>
  A pandas \<open>DataFrame\<close>: its row keys (\<open>df.index\<close>) and, for each column label in
  order (\<open>df.columns\<close>), the cells of the column from the first row to the last.
\<close>

datatype dataframe = DataFrame (df_index: "key list") (df_columns: "(key \<times> yaml list) list")

datatype pyval = Plain yaml | Frame dataframe

text \<open>
  Every error of \<open>parameter_set.py\<close> is an \<open>AttributeError\<close>; the message tells
  the kinds apart:
  \<^item> \<open>CannotSetLocked\<close>: "Cannot set parameter of locked Parameter Set" (\<open>__setattr__\<close>);
  \<^item> \<open>CannotAlterLocked n\<close>: "Cannot alter value of locked Parameter Set (set_meta n)";
  \<^item> \<open>NoSuchParameter n\<close>: "No such parameter 'n'";
  \<^item> \<open>NoAttribute n\<close>: the interpreter's own error for an attribute that does not exist.
  The other three are raised by pandas, pytest and \<open>statistics\<close>.
\<close>

datatype attr_msg = CannotSetLocked | CannotAlterLocked string | NoSuchParameter string
  | NoAttribute string

datatype error = AttributeError attr_msg | ValueError | TypeError | StatisticsError

text \<open>The two kinds of failure the specification names.\<close>

fun LockedError :: "error \<Rightarrow> bool" where
  "LockedError (AttributeError CannotSetLocked) = True"
| "LockedError (AttributeError (CannotAlterLocked n)) = True"
| "LockedError e = False"

fun UnknownParameterError :: "error \<Rightarrow> bool" where
  "UnknownParameterError (AttributeError (NoSuchParameter n)) = True"
| "UnknownParameterError e = False"

definition bind :: "error + 'a \<Rightarrow> ('a \<Rightarrow> error + 'b) \<Rightarrow> error + 'b" where
  "bind m f = (case m of Inl e \<Rightarrow> Inl e | Inr x \<Rightarrow> f x)"

section \<open>values.py: tolerant equality\<close>

text \<open>\<open>isinstance(x, numbers.Complex)\<close> on a scalar, and the number it stands for.\<close>

fun is_number :: "scalar \<Rightarrow> bool" where
  "is_number (PBool b) = True"
| "is_number (PInt i) = True"
| "is_number (PFloat r) = True"
| "is_number PNaN = True"
| "is_number PNone = False"
| "is_number (PStr s) = False"

fun num :: "scalar \<Rightarrow> real" where
  "num (PBool b) = (if b then 1 else 0)"
| "num (PInt i) = of_int i"
| "num (PFloat r) = r"
| "num PNaN = 0"
| "num PNone = 0"
| "num (PStr s) = 0"

text \<open>Python's \<open>==\<close> on scalars: numbers by value, not-a-number equal to nothing.\<close>

fun py_eq :: "scalar \<Rightarrow> scalar \<Rightarrow> bool" where
  "py_eq PNone PNone = True"
| "py_eq (PStr a) (PStr b) = (a = b)"
| "py_eq PNaN y = False"
| "py_eq x PNaN = False"
| "py_eq x y = (is_number x \<and> is_number y \<and> num x = num y)"

definition pseudo_nan :: "scalar \<Rightarrow> bool" where
  "pseudo_nan x = (x = PNone \<or> py_eq x (PStr []) \<or> x = PNaN)"

definition pseudo_zero :: "scalar \<Rightarrow> bool" where
  "pseudo_zero x = (py_eq x (PInt 0) \<or> pseudo_nan x)"

text \<open>
  \<open>actual == pytest.approx(expected, abs=thresh, rel=1e-6, nan_ok=True)\<close> for a scalar
  \<open>expected\<close> (pytest 6.1 and later): equal values are close; values that are not both
  numbers are compared strictly; not-a-number is close to itself only; otherwise the
  distance is held against the larger of the two tolerances, and a negative absolute
  tolerance is a \<open>ValueError\<close> raised when the tolerance is read.
\<close>

definition approx_scalar :: "yaml \<Rightarrow> scalar \<Rightarrow> real \<Rightarrow> error + bool" where
  "approx_scalar actual expected thresh =
     (case actual of
        YMap kvs \<Rightarrow> Inr False
      | YScalar a \<Rightarrow>
          if py_eq a expected then Inr True
          else if \<not> (is_number expected \<and> is_number a) then Inr False
          else if expected = PNaN then Inr (a = PNaN)
          else if thresh < 0 then Inl ValueError
          else if a = PNaN then Inr False
          else Inr (\<bar>num expected - num a\<bar> \<le> max (\<bar>num expected\<bar> / 1000000) thresh))"

text \<open>
  The comparisons of an \<open>ApproxMapping\<close>, in the order of the expected keys: the first
  pair that is not close ends them.
\<close>

fun approx_all :: "(yaml \<times> scalar) list \<Rightarrow> real \<Rightarrow> error + bool" where
  "approx_all [] thresh = Inr True"
| "approx_all ((a, x) # rest) thresh =
     (case approx_scalar a x thresh of
        Inl e \<Rightarrow> Inl e
      | Inr False \<Rightarrow> Inr False
      | Inr True \<Rightarrow> approx_all rest thresh)"

fun is_map :: "yaml \<Rightarrow> bool" where
  "is_map (YMap kvs) = True"
| "is_map (YScalar s) = False"

fun the_scalar :: "yaml \<Rightarrow> scalar" where
  "the_scalar (YScalar s) = s"
| "the_scalar (YMap kvs) = PNone"

text \<open>
  \<open>actual == pytest.approx(expected, ...)\<close> in general: a mapping with a mapping among
  its values is refused when the \<open>approx\<close> object is built (\<open>TypeError\<close>); a mapping is
  close to a mapping with the same keys and close values.
\<close>

definition approx_eq :: "yaml \<Rightarrow> yaml \<Rightarrow> real \<Rightarrow> error + bool" where
  "approx_eq actual expected thresh =
     (case expected of
        YScalar x \<Rightarrow> approx_scalar actual x thresh
      | YMap kvs \<Rightarrow>
          if \<exists>v \<in> set (map snd kvs). is_map v then Inl TypeError
          else (case actual of
                  YScalar a \<Rightarrow> Inr False
                | YMap avs \<Rightarrow>
                    if set (map fst avs) \<noteq> set (map fst kvs) then Inr False
                    else approx_all
                      (map (\<lambda>(k, x). (case map_of avs k of Some a \<Rightarrow> a | None \<Rightarrow> YScalar PNone,
                                       the_scalar x)) kvs) thresh))"

fun is_str :: "yaml \<Rightarrow> bool" where
  "is_str (YScalar (PStr s)) = True"
| "is_str y = False"

text \<open>\<open>pseudo_zero\<close> on any value that is not a table: a mapping is not like zero.\<close>

fun yaml_pseudo_zero :: "yaml \<Rightarrow> bool" where
  "yaml_pseudo_zero (YScalar s) = pseudo_zero s"
| "yaml_pseudo_zero (YMap kvs) = False"

definition zero_norm :: "bool \<Rightarrow> yaml \<Rightarrow> yaml" where
  "zero_norm all_zero v = (if all_zero \<and> yaml_pseudo_zero v then YScalar (PFloat 0) else v)"

text \<open>
  \<open>value_eq\<close> from "Now back to simple types" on: the part that runs when neither value
  is a table. The cells of a table are never tables, so \<open>df_value_eq\<close> reaches only
  this part when it calls \<open>value_eq\<close> on a pair of cells.
\<close>

definition simple_value_eq :: "yaml \<Rightarrow> yaml \<Rightarrow> bool \<Rightarrow> real \<Rightarrow> error + bool" where
  "simple_value_eq v1 v2 all_zero thresh =
     (if is_str v1 \<and> is_str v2 then Inr (v1 = v2)
      else
        let v1' = zero_norm all_zero v1; v2' = zero_norm all_zero v2
        in if v1' = YScalar PNone \<and> v2' = YScalar PNone then Inr True
           else approx_eq v1' v2' thresh)"

text \<open>The inner loop of \<open>df_value_eq\<close>: \<open>for x1,x2 in zip(v1[col],v2[col])\<close>.\<close>

fun cells_eq :: "(yaml \<times> yaml) list \<Rightarrow> bool \<Rightarrow> real \<Rightarrow> error + bool" where
  "cells_eq [] all_zero thresh = Inr True"
| "cells_eq ((x1, x2) # rest) all_zero thresh =
     (case simple_value_eq x1 x2 all_zero thresh of
        Inl e \<Rightarrow> Inl e
      | Inr False \<Rightarrow> Inr False
      | Inr True \<Rightarrow> cells_eq rest all_zero thresh)"

text \<open>\<open>df[col]\<close>: the cells of the column with that label.\<close>

definition column :: "dataframe \<Rightarrow> key \<Rightarrow> yaml list" where
  "column df col = (case map_of (df_columns df) col of Some cells \<Rightarrow> cells | None \<Rightarrow> [])"

text \<open>The outer loop: \<open>for col in v1.columns\<close>.\<close>

fun columns_eq :: "key list \<Rightarrow> dataframe \<Rightarrow> dataframe \<Rightarrow> bool \<Rightarrow> real \<Rightarrow> error + bool" where
  "columns_eq [] v1 v2 all_zero thresh = Inr True"
| "columns_eq (col # cols) v1 v2 all_zero thresh =
     (case cells_eq (zip (column v1 col) (column v2 col)) all_zero thresh of
        Inl e \<Rightarrow> Inl e
      | Inr False \<Rightarrow> Inr False
      | Inr True \<Rightarrow> columns_eq cols v1 v2 all_zero thresh)"

definition df_value_eq :: "dataframe \<Rightarrow> dataframe \<Rightarrow> bool \<Rightarrow> real \<Rightarrow> error + bool" where
  "df_value_eq v1 v2 all_zero thresh =
     (if df_index v1 \<noteq> df_index v2 then Inr False
      else if map fst (df_columns v1) \<noteq> map fst (df_columns v2) then Inr False
      else columns_eq (map fst (df_columns v1)) v1 v2 all_zero thresh)"

definition value_eq :: "pyval \<Rightarrow> pyval \<Rightarrow> bool \<Rightarrow> real \<Rightarrow> error + bool" where
  "value_eq v1 v2 all_zero thresh =
     (case v1 of
        Frame d1 \<Rightarrow> (case v2 of Frame d2 \<Rightarrow> df_value_eq d1 d2 all_zero thresh
                               | Plain y2 \<Rightarrow> Inr False)
      | Plain y1 \<Rightarrow> (case v2 of Frame d2 \<Rightarrow> Inr False
                               | Plain y2 \<Rightarrow> simple_value_eq y1 y2 all_zero thresh))"

text \<open>The default of the parameter \<open>thresh\<close>, \<open>1e-6\<close>.\<close>

definition default_thresh :: real where
  "default_thresh = 1 / 1000000"

text \<open>
  A table as pandas builds it: distinct column labels, distinct row keys, one cell for
  each row in every column.
\<close>

definition wf_frame :: "dataframe \<Rightarrow> bool" where
  "wf_frame df = (distinct (map fst (df_columns df)) \<and> distinct (df_index df) \<and>
     list_all (\<lambda>c. length (snd c) = length (df_index df)) (df_columns df))"

section \<open>values.py: statistics\<close>

definition filter_nans :: "scalar list \<Rightarrow> scalar list" where
  "filter_nans vs = filter (\<lambda>x. \<not> pseudo_nan x) vs"

text \<open>
  The functions of Python's \<open>statistics\<close> module that the code calls. Each one first
  refuses a sample that is too short (\<open>StatisticsError\<close>); data that are not numbers
  are a \<open>TypeError\<close>.
\<close>

definition statistics_mean :: "scalar list \<Rightarrow> error + real" where
  "statistics_mean vs =
     (if vs = [] then Inl StatisticsError
      else if \<not> list_all is_number vs then Inl TypeError
      else Inr (sum_list (map num vs) / real (length vs)))"

definition statistics_stdev :: "scalar list \<Rightarrow> error + real" where
  "statistics_stdev vs =
     (if length vs < 2 then Inl StatisticsError
      else if \<not> list_all is_number vs then Inl TypeError
      else let m = sum_list (map num vs) / real (length vs)
           in Inr (sqrt (sum_list (map (\<lambda>x. (num x - m)\<^sup>2) vs) / real (length vs - 1))))"

text \<open>\<open>statistics.quantiles(data)\<close>: the three quartiles, method "exclusive".\<close>

definition quantile :: "real list \<Rightarrow> int \<Rightarrow> real" where
  "quantile data i =
     (let ld = int (length data);
          j0 = (i * (ld + 1)) div 4;
          j = (if j0 < 1 then 1 else if j0 > ld - 1 then ld - 1 else j0);
          delta = i * (ld + 1) - j * 4
      in (data ! nat (j - 1) * real_of_int (4 - delta) + data ! nat j * real_of_int delta) / 4)"

definition statistics_quantiles :: "scalar list \<Rightarrow> error + real list" where
  "statistics_quantiles vs =
     (if length vs < 2 then Inl StatisticsError
      else if \<not> list_all is_number vs then Inl TypeError
      else let data = sort (map num vs) in Inr (map (quantile data) [1, 2, 3]))"

definition s25_ile :: "scalar list \<Rightarrow> error + scalar" where
  "s25_ile vs0 =
     (let vs = filter_nans vs0
      in if length vs > 2
         then bind (statistics_quantiles vs) (\<lambda>quiles. Inr (PFloat (quiles ! 0)))
         else Inr PNaN)"

definition s75_ile :: "scalar list \<Rightarrow> error + scalar" where
  "s75_ile vs0 =
     (let vs = filter_nans vs0
      in if length vs > 2
         then bind (statistics_quantiles vs) (\<lambda>quiles. Inr (PFloat (quiles ! 2)))
         else Inr PNaN)"

definition slow_dev :: "scalar list \<Rightarrow> real \<Rightarrow> bool \<Rightarrow> error + scalar" where
  "slow_dev vs0 n minzero =
     (let vs = filter_nans vs0
      in if length vs \<noteq> 0
         then bind (statistics_mean vs) (\<lambda>m.
              bind (statistics_stdev vs) (\<lambda>sd.
                let r = m - n * sd
                in Inr (if minzero \<and> r < 0 then PInt 0 else PFloat r)))
         else Inr PNaN)"

text \<open>
  \<open>shi_dev\<close> is one expression, \<open>mean(vs) + (n*stdev(vs) if len(vs) else nan)\<close>: the
  mean is computed before the length is looked at.
\<close>

definition shi_dev :: "scalar list \<Rightarrow> real \<Rightarrow> error + scalar" where
  "shi_dev vs0 n =
     (let vs = filter_nans vs0
      in bind (statistics_mean vs) (\<lambda>m.
           if length vs \<noteq> 0
           then bind (statistics_stdev vs) (\<lambda>sd. Inr (PFloat (m + n * sd)))
           else Inr PNaN))"

section \<open>parameter_set.py: classes and instances\<close>

text \<open>
  A field of a parameter-set class, as \<open>dataclasses\<close> records it: its name, its default
  (also the class attribute of that name) and whether its metadata carries \<open>pdtype\<close>.
  Every field of the repository declares a default.
\<close>

record field =
  fname :: string
  fdefault :: pyval
  pdtype :: bool

text \<open>
  A class decorated with \<open>ps_dataclass\<close>: the fields that \<open>dataclasses.fields\<close> lists,
  in order, and the \<open>InitVar\<close> pseudo-fields with their defaults, which are class
  attributes and entries of \<open>__dataclass_fields__\<close> but not parameters. A subclass that
  overrides \<open>__init__\<close> or the hook \<open>_initialize_value\<close> is not covered.
\<close>

record pclass =
  cfields :: "field list"
  initvars :: "(string \<times> pyval) list"

text \<open>
  An instance: its class, its attribute dictionary, and the three bookkeeping
  attributes \<open>_locked\<close> (as its truth value), \<open>_meta\<close> and \<open>_set\<close>. The two containers
  are only ever changed in place, so they are kept apart from the attribute dictionary
  and cannot be read or rebound as attributes here.
\<close>

record ParameterSet =
  ps_cls :: pclass
  ps_attrs :: "string \<rightharpoonup> pyval"
  ps_locked :: bool
  ps_meta :: "string \<rightharpoonup> yaml"
  ps_set :: "string set"

definition parameter_names :: "pclass \<Rightarrow> string list" where
  "parameter_names c = map fname (cfields c)"

definition field_data :: "pclass \<Rightarrow> string \<rightharpoonup> field" where
  "field_data c k =
     (case find (\<lambda>f. fname f = k) (cfields c) of
        Some f \<Rightarrow> Some f
      | None \<Rightarrow> (case map_of (initvars c) k of
                   Some v \<Rightarrow> Some \<lparr>fname = k, fdefault = v, pdtype = False\<rparr>
                 | None \<Rightarrow> None))"

text \<open>Python's truth value; pandas gives a table none, which stops every later write too.\<close>

fun truthy :: "pyval \<Rightarrow> bool" where
  "truthy (Plain (YScalar PNone)) = False"
| "truthy (Plain (YScalar (PBool b))) = b"
| "truthy (Plain (YScalar (PInt i))) = (i \<noteq> 0)"
| "truthy (Plain (YScalar (PFloat r))) = (r \<noteq> 0)"
| "truthy (Plain (YScalar PNaN)) = True"
| "truthy (Plain (YScalar (PStr s))) = (s \<noteq> [])"
| "truthy (Plain (YMap kvs)) = (kvs \<noteq> [])"
| "truthy (Frame df) = True"

definition islocked :: "ParameterSet \<Rightarrow> bool" where
  "islocked ps = ps_locked ps"

text \<open>\<open>object.__setattr__\<close> and \<open>getattr\<close>: the instance dictionary, then the class.\<close>

definition object_setattr :: "ParameterSet \<Rightarrow> string \<Rightarrow> pyval \<Rightarrow> ParameterSet" where
  "object_setattr ps name v =
     (if name = ''_locked'' then ps\<lparr>ps_locked := truthy v\<rparr>
      else ps\<lparr>ps_attrs := (ps_attrs ps)(name \<mapsto> v)\<rparr>)"

definition py_getattr :: "ParameterSet \<Rightarrow> string \<Rightarrow> error + pyval" where
  "py_getattr ps name =
     (if name = ''_locked'' then Inr (Plain (YScalar (PBool (ps_locked ps))))
      else case ps_attrs ps name of
             Some v \<Rightarrow> Inr v
           | None \<Rightarrow> (case field_data (ps_cls ps) name of
                        Some f \<Rightarrow> Inr (fdefault f)
                      | None \<Rightarrow> Inl (AttributeError (NoAttribute name))))"

definition py_setattr :: "ParameterSet \<Rightarrow> string \<Rightarrow> pyval \<Rightarrow> error + ParameterSet" where
  "py_setattr ps name v =
     (if islocked ps then Inl (AttributeError CannotSetLocked)
      else let ps' = object_setattr ps name v
           in if name \<in> set (parameter_names (ps_cls ps'))
              then Inr (ps'\<lparr>ps_set := insert name (ps_set ps')\<rparr>)
              else Inr ps')"

definition lock :: "ParameterSet \<Rightarrow> error + ParameterSet" where
  "lock ps = py_setattr ps ''_locked'' (Plain (YScalar (PBool True)))"

definition getitem :: "ParameterSet \<Rightarrow> string \<Rightarrow> error + pyval" where
  "getitem ps k =
     (if k \<notin> set (parameter_names (ps_cls ps)) then Inl (AttributeError (NoSuchParameter k))
      else py_getattr ps k)"

definition setitem :: "ParameterSet \<Rightarrow> string \<Rightarrow> pyval \<Rightarrow> error + ParameterSet" where
  "setitem ps k v =
     (if k \<notin> set (parameter_names (ps_cls ps)) then Inl (AttributeError (NoSuchParameter k))
      else py_setattr ps k v)"

definition meta :: "ParameterSet \<Rightarrow> string \<Rightarrow> error + yaml" where
  "meta ps parameter_name =
     (if parameter_name \<notin> set (parameter_names (ps_cls ps))
      then Inl (AttributeError (NoSuchParameter parameter_name))
      else Inr (case ps_meta ps parameter_name of Some m \<Rightarrow> m | None \<Rightarrow> YScalar PNone))"

definition set_meta :: "ParameterSet \<Rightarrow> string \<Rightarrow> yaml \<Rightarrow> error + ParameterSet" where
  "set_meta ps parameter_name newvalue =
     (if islocked ps then Inl (AttributeError (CannotAlterLocked parameter_name))
      else if parameter_name \<notin> set (parameter_names (ps_cls ps))
      then Inl (AttributeError (NoSuchParameter parameter_name))
      else Inr (ps\<lparr>ps_meta := (ps_meta ps)(parameter_name \<mapsto> newvalue),
                   ps_set := insert parameter_name (ps_set ps)\<rparr>))"

section \<open>parameter_set.py: serialization and construction\<close>

text \<open>
  pandas: \<open>df.to_dict()\<close> is the nested mapping from column label to row key to cell.
  \<open>pd.DataFrame.from_dict(raw)\<close> builds a table from such a mapping: the row keys are
  those of the inner mappings in order of first appearance, a missing cell is
  not-a-number, and a scalar beside inner mappings fills its column. A value that is no
  mapping, or a non-empty mapping of scalars only, is a \<open>ValueError\<close>.
\<close>

definition to_dict :: "dataframe \<Rightarrow> yaml" where
  "to_dict df = YMap (map (\<lambda>(c, cells). (c, YMap (zip (df_index df) cells))) (df_columns df))"

definition index_union :: "key list \<Rightarrow> key list \<Rightarrow> key list" where
  "index_union acc ks = fold (\<lambda>k a. if k \<in> set a then a else a @ [k]) ks acc"

fun row_keys :: "yaml \<Rightarrow> key list" where
  "row_keys (YMap rows) = map fst rows"
| "row_keys (YScalar s) = []"

fun column_cells :: "key list \<Rightarrow> yaml \<Rightarrow> yaml list" where
  "column_cells idx (YMap rows) =
     map (\<lambda>r. case map_of rows r of Some x \<Rightarrow> x | None \<Rightarrow> YScalar PNaN) idx"
| "column_cells idx (YScalar s) = replicate (length idx) (YScalar s)"

definition from_dict :: "yaml \<Rightarrow> error + dataframe" where
  "from_dict raw =
     (case raw of
        YScalar s \<Rightarrow> Inl ValueError
      | YMap cols \<Rightarrow>
          if cols \<noteq> [] \<and> list_all (\<lambda>c. \<not> is_map (snd c)) cols then Inl ValueError
          else let idx = fold (\<lambda>c acc. index_union acc (row_keys (snd c))) cols []
               in Inr (DataFrame idx (map (\<lambda>c. (fst c, column_cells idx (snd c))) cols)))"

definition dict_get :: "yaml \<Rightarrow> key \<Rightarrow> yaml" where
  "dict_get v k =
     (case v of
        YMap kvs \<Rightarrow> (case map_of kvs k of Some x \<Rightarrow> x | None \<Rightarrow> YScalar PNone)
      | YScalar s \<Rightarrow> YScalar PNone)"

text \<open>\<open>isinstance(v, dict) and ('meta' in v) and ('value' in v)\<close>\<close>

fun is_wrapped :: "yaml \<Rightarrow> bool" where
  "is_wrapped (YMap kvs) = (KStr ''meta'' \<in> set (map fst kvs) \<and> KStr ''value'' \<in> set (map fst kvs))"
| "is_wrapped (YScalar s) = False"

definition initialize_value :: "string \<Rightarrow> yaml \<Rightarrow> field \<Rightarrow> error + pyval" where
  "initialize_value param_name raw_value fd =
     (if pdtype fd \<and> raw_value \<noteq> YScalar PNone
      then bind (from_dict raw_value) (\<lambda>df. Inr (Frame df))
      else Inr (Plain raw_value))"

text \<open>
  The loop of \<open>__init__\<close> over \<open>param_data.items()\<close>. A key that is not among the
  class's fields is skipped with a warning (the warning itself is not recorded).
\<close>

fun init_items :: "ParameterSet \<Rightarrow> (string \<times> yaml) list \<Rightarrow> error + ParameterSet" where
  "init_items ps [] = Inr ps"
| "init_items ps ((k, v) # rest) =
     (case field_data (ps_cls ps) k of
        None \<Rightarrow> init_items ps rest
      | Some fd \<Rightarrow>
          let ps1 = (if is_wrapped v
                     then ps\<lparr>ps_meta := (ps_meta ps)(k \<mapsto> dict_get v (KStr ''meta''))\<rparr>
                     else ps);
              v1 = (if is_wrapped v then dict_get v (KStr ''value'') else v)
          in bind (initialize_value k v1 fd) (\<lambda>v2.
             bind (setitem ps1 k v2) (\<lambda>ps2.
               init_items (ps2\<lparr>ps_set := insert k (ps_set ps2)\<rparr>) rest)))"

text \<open>
  \<open>cls(param_data)\<close> for parsed data: a fresh, unlocked instance with empty \<open>_meta\<close> and
  \<open>_set\<close>, then the loop (which does nothing for empty data, as \<open>if param_data:\<close> has it).
\<close>

definition ParameterSet_init :: "pclass \<Rightarrow> (string \<times> yaml) list \<Rightarrow> error + ParameterSet" where
  "ParameterSet_init c param_data =
     init_items \<lparr>ps_cls = c, ps_attrs = Map.empty, ps_locked = False,
                 ps_meta = Map.empty, ps_set = {}\<rparr> param_data"

text \<open>The loop of \<open>_to_yaml_form\<close> over the parameter names.\<close>

fun yaml_items :: "ParameterSet \<Rightarrow> bool \<Rightarrow> string list \<Rightarrow> error + (string \<times> yaml) list" where
  "yaml_items ps compact' [] = Inr []"
| "yaml_items ps compact' (p # rest) =
     bind (getitem ps p) (\<lambda>v.
       if compact' \<and> p \<notin> ps_set ps then yaml_items ps compact' rest
       else
         let v1 = (case v of Frame df \<Rightarrow> to_dict df | Plain y \<Rightarrow> y)
         in bind (meta ps p) (\<lambda>m.
              let v2 = (if m \<noteq> YScalar PNone
                        then YMap [(KStr ''value'', v1), (KStr ''meta'', m)] else v1)
              in bind (yaml_items ps compact' rest) (\<lambda>the_data. Inr ((p, v2) # the_data))))"

definition to_yaml_form :: "ParameterSet \<Rightarrow> bool \<Rightarrow> error + (string \<times> yaml) list" where
  "to_yaml_form ps compact' = yaml_items ps compact' (parameter_names (ps_cls ps))"

definition copy :: "ParameterSet \<Rightarrow> error + ParameterSet" where
  "copy ps = bind (to_yaml_form ps True) (ParameterSet_init (ps_cls ps))"

text \<open>
  The loop of \<open>merged_with\<close> runs over \<open>other_ps._set\<close> and acts on the names that are
  parameters of the other class. A Python set has no order of its own and each round
  writes only its own name, so the rounds are taken in the order of the class's names.
\<close>

fun merge_items :: "ParameterSet \<Rightarrow> ParameterSet \<Rightarrow> string list \<Rightarrow> error + ParameterSet" where
  "merge_items newps other_ps [] = Inr newps"
| "merge_items newps other_ps (op # ops) =
     bind (getitem other_ps op) (\<lambda>v.
     bind (setitem newps op v) (\<lambda>n1.
     bind (meta other_ps op) (\<lambda>m.
     bind (set_meta n1 op m) (\<lambda>n2.
       merge_items n2 other_ps ops))))"

definition merged_with :: "ParameterSet \<Rightarrow> ParameterSet \<Rightarrow> error + ParameterSet" where
  "merged_with self other_ps =
     bind (to_yaml_form self True) (\<lambda>raw.
     bind (ParameterSet_init (ps_cls other_ps) raw) (\<lambda>newps.
       merge_items newps other_ps
         (filter (\<lambda>op. op \<in> ps_set other_ps) (parameter_names (ps_cls other_ps)))))"

text \<open>\<open>fielddata[p].default\<close>, for a name \<open>p\<close> of the class.\<close>

definition field_default :: "pclass \<Rightarrow> string \<Rightarrow> pyval" where
  "field_default c p =
     (case field_data c p of Some fd \<Rightarrow> fdefault fd | None \<Rightarrow> Plain (YScalar PNone))"

fun delta_items :: "pclass \<Rightarrow> ParameterSet \<Rightarrow> ParameterSet \<Rightarrow> string list \<Rightarrow> error + ParameterSet" where
  "delta_items c base_ps newps [] = Inr newps"
| "delta_items c base_ps newps (p # rest) =
     bind (getitem base_ps p) (\<lambda>base_value.
     bind (getitem newps p) (\<lambda>new_value.
     bind (value_eq base_value new_value True default_thresh) (\<lambda>same.
       if same then delta_items c base_ps (newps\<lparr>ps_set := ps_set newps - {p}\<rparr>) rest
       else bind (value_eq new_value (field_default c p) True default_thresh) (\<lambda>isdefault.
         if isdefault then delta_items c base_ps (newps\<lparr>ps_set := insert p (ps_set newps)\<rparr>) rest
         else delta_items c base_ps newps rest))))"

definition delta_from :: "ParameterSet \<Rightarrow> ParameterSet \<Rightarrow> error + ParameterSet" where
  "delta_from self base_ps =
     bind (copy self) (\<lambda>newps.
       delta_items (ps_cls self) base_ps newps (parameter_names (ps_cls self)))"

section \<open>Classes and instances used as examples\<close>

text \<open>
  \<open>SamplePS\<close> is the class of the repository's tests. \<open>DerivedPS\<close> redeclares
  \<open>paramC\<close> with the default 3, as the tests' \<open>ChildPS\<close> does, and adds nothing else.
\<close>

definition SamplePS :: pclass where
  "SamplePS = \<lparr>cfields =
      [\<lparr>fname = ''paramA'', fdefault = Plain (YScalar PNone), pdtype = False\<rparr>,
       \<lparr>fname = ''paramB'', fdefault = Plain (YScalar PNone), pdtype = True\<rparr>,
       \<lparr>fname = ''paramC'', fdefault = Plain (YScalar (PFloat (314 / 100))), pdtype = False\<rparr>],
     initvars = [(''not_a_param'', Plain (YScalar (PStr ''nap'')))]\<rparr>"

definition DerivedPS :: pclass where
  "DerivedPS = \<lparr>cfields =
      [\<lparr>fname = ''paramA'', fdefault = Plain (YScalar PNone), pdtype = False\<rparr>,
       \<lparr>fname = ''paramB'', fdefault = Plain (YScalar PNone), pdtype = True\<rparr>,
       \<lparr>fname = ''paramC'', fdefault = Plain (YScalar (PInt 3)), pdtype = False\<rparr>],
     initvars = [(''not_a_param'', Plain (YScalar (PStr ''nap'')))]\<rparr>"

text \<open>The table \<open>{"World": {1990: 2, 1991: 3, 1993: 4}}\<close> of the tests, as raw data and as a table.\<close>

definition world_raw :: yaml where
  "world_raw = YMap [(KStr ''World'',
     YMap [(KInt 1990, YScalar (PInt 2)), (KInt 1991, YScalar (PInt 3)), (KInt 1993, YScalar (PInt 4))])]"

definition world_df :: dataframe where
  "world_df = DataFrame [KInt 1990, KInt 1991, KInt 1993]
     [(KStr ''World'', [YScalar (PInt 2), YScalar (PInt 3), YScalar (PInt 4)])]"


text \<open>\<open>SamplePS("")\<close>, and the same instance after \<open>lock()\<close>.\<close>

definition sample_empty :: ParameterSet where
  "sample_empty = \<lparr>ps_cls = SamplePS, ps_attrs = Map.empty, ps_locked = False,
     ps_meta = Map.empty, ps_set = {}\<rparr>"

definition sample_locked :: ParameterSet where
  "sample_locked = \<lparr>ps_cls = SamplePS, ps_attrs = Map.empty, ps_locked = True,
     ps_meta = Map.empty, ps_set = {}\<rparr>"

text \<open>The data of the tests' \<open>test_diff\<close>, and \<open>SamplePS(data1)\<close>, \<open>SamplePS(data2)\<close>.\<close>

definition data1 :: "(string \<times> yaml) list" where
  "data1 = [(''paramA'', YScalar (PInt 20)), (''paramB'', world_raw)]"

definition data2 :: "(string \<times> yaml) list" where
  "data2 = [(''paramA'', YScalar (PInt 40)),
            (''paramB'', YMap [(KStr ''value'', world_raw),
                               (KStr ''meta'', YScalar (PStr ''I have metadata''))])]"

definition sample1 :: ParameterSet where
  "sample1 = \<lparr>ps_cls = SamplePS,
     ps_attrs = [''paramA'' \<mapsto> Plain (YScalar (PInt 20)), ''paramB'' \<mapsto> Frame world_df],
     ps_locked = False, ps_meta = Map.empty, ps_set = {''paramA'', ''paramB''}\<rparr>"

definition sample2 :: ParameterSet where
  "sample2 = \<lparr>ps_cls = SamplePS,
     ps_attrs = [''paramA'' \<mapsto> Plain (YScalar (PInt 40)), ''paramB'' \<mapsto> Frame world_df],
     ps_locked = False, ps_meta = [''paramB'' \<mapsto> YScalar (PStr ''I have metadata'')],
     ps_set = {''paramA'', ''paramB''}\<rparr>"

text \<open>\<open>SamplePS("")\<close> after \<open>ps.paramB = 10\<close> and \<open>ps.lock()\<close>.\<close>

definition sample_b10 :: ParameterSet where
  "sample_b10 = \<lparr>ps_cls = SamplePS, ps_attrs = [''paramB'' \<mapsto> Plain (YScalar (PInt 10))],
     ps_locked = True, ps_meta = Map.empty, ps_set = {''paramB''}\<rparr>"

text \<open>\<open>DerivedPS("")\<close> and \<open>SamplePS("paramC: 3")\<close>.\<close>

definition derived_empty :: ParameterSet where
  "derived_empty = \<lparr>ps_cls = DerivedPS, ps_attrs = Map.empty, ps_locked = False,
     ps_meta = Map.empty, ps_set = {}\<rparr>"

definition sample_c3 :: ParameterSet where
  "sample_c3 = \<lparr>ps_cls = SamplePS, ps_attrs = [''paramC'' \<mapsto> Plain (YScalar (PInt 3))],
     ps_locked = False, ps_meta = Map.empty, ps_set = {''paramC''}\<rparr>"

section \<open>Vocabulary of the statements\<close>

text \<open>
  The instance after a call. Every \<open>raise\<close> of \<open>__setattr__\<close>, \<open>__setitem__\<close> and
  \<open>set_meta\<close> comes before the first write, so a call that raises leaves the instance as
  it was.
\<close>

definition after :: "ParameterSet \<Rightarrow> error + ParameterSet \<Rightarrow> ParameterSet" where
  "after ps r = (case r of Inl e \<Rightarrow> ps | Inr ps' \<Rightarrow> ps')"

text \<open>
  A class as \<open>dataclasses\<close> can build it: the names of its fields and pseudo-fields are
  distinct, and none of them is one of the three bookkeeping attributes.
\<close>

definition wf_class :: "pclass \<Rightarrow> bool" where
  "wf_class c =
     (distinct (map fname (cfields c) @ map fst (initvars c)) \<and>
      list_all (\<lambda>n. n \<notin> set (map fname (cfields c) @ map fst (initvars c)))
        [''_locked'', ''_meta'', ''_set''])"

text \<open>What a parameter reports: its value, its metadata, and how \<open>_to_yaml_form\<close> writes both.\<close>

definition the_value :: "ParameterSet \<Rightarrow> string \<Rightarrow> pyval" where
  "the_value ps p = (case py_getattr ps p of Inr v \<Rightarrow> v | Inl e \<Rightarrow> Plain (YScalar PNone))"

definition the_meta :: "ParameterSet \<Rightarrow> string \<Rightarrow> yaml" where
  "the_meta ps p = (case ps_meta ps p of Some m \<Rightarrow> m | None \<Rightarrow> YScalar PNone)"

definition yaml_value :: "pyval \<Rightarrow> yaml" where
  "yaml_value v = (case v of Frame df \<Rightarrow> to_dict df | Plain y \<Rightarrow> y)"

definition wrap :: "yaml \<Rightarrow> yaml \<Rightarrow> yaml" where
  "wrap v m = (if m \<noteq> YScalar PNone then YMap [(KStr ''value'', v), (KStr ''meta'', m)] else v)"

definition ser :: "ParameterSet \<Rightarrow> string \<Rightarrow> yaml" where
  "ser ps p = wrap (yaml_value (the_value ps p)) (the_meta ps p)"

text \<open>
  A value that comes back unchanged when it is written by \<open>_to_yaml_form\<close> and read by
  the constructor for a field with the given \<open>pdtype\<close>: a table (with at least one
  column) or None in a tabular field, a value that is no table in any other field, and,
  where no metadata wraps it, no mapping with the keys "meta" and "value".
\<close>

fun storable :: "bool \<Rightarrow> pyval \<Rightarrow> yaml \<Rightarrow> bool" where
  "storable pd (Frame df) m =
     (pd \<and> wf_frame df \<and> df_columns df \<noteq> [] \<and> (m = YScalar PNone \<longrightarrow> \<not> is_wrapped (to_dict df)))"
| "storable pd (Plain y) m =
     ((pd \<longrightarrow> y = YScalar PNone) \<and> (m = YScalar PNone \<longrightarrow> \<not> is_wrapped y))"

text \<open>
  Class \<open>c\<close> can load the parameter \<open>p\<close> of \<open>src\<close>: it either does not know the name (and
  skips it with a warning), or has it as a parameter (not as a pseudo-field) of a kind
  that reads the value back.
\<close>

definition loadable :: "pclass \<Rightarrow> ParameterSet \<Rightarrow> string \<Rightarrow> bool" where
  "loadable c src p =
     (case field_data c p of
        None \<Rightarrow> True
      | Some fd \<Rightarrow> p \<in> set (parameter_names c)
                    \<and> storable (pdtype fd) (the_value src p) (the_meta src p))"

text \<open>Class \<open>c\<close> can load every explicit parameter of \<open>ps\<close>.\<close>

definition serializable :: "pclass \<Rightarrow> ParameterSet \<Rightarrow> bool" where
  "serializable c ps =
     list_all (\<lambda>p. p \<in> ps_set ps \<longrightarrow> loadable c ps p) (parameter_names (ps_cls ps))"

text \<open>
  A value on which \<open>value_eq\<close> cannot raise: a scalar, or a table of scalars. (A mapping
  with a mapping inside is refused by \<open>pytest.approx\<close>.)
\<close>

fun comparable :: "pyval \<Rightarrow> bool" where
  "comparable (Plain y) = (\<not> is_map y)"
| "comparable (Frame df) = list_all (\<lambda>c. list_all (\<lambda>x. \<not> is_map x) (snd c)) (df_columns df)"

text \<open>
  For every parameter of class \<open>c\<close>: \<open>ps\<close> reports a comparable value, the default of
  \<open>c\<close> is comparable, and a parameter that is not explicit in \<open>ps\<close> reports the default
  of \<open>c\<close>.
\<close>

definition inherits_defaults :: "pclass \<Rightarrow> ParameterSet \<Rightarrow> bool" where
  "inherits_defaults c ps =
     list_all (\<lambda>p. comparable (the_value ps p) \<and> comparable (field_default c p) \<and>
                    (p \<notin> ps_set ps \<longrightarrow> the_value ps p = field_default c p))
       (parameter_names c)"

section \<open>Tolerant equality of tables and of values that are like zero\<close>

lemma cells_eq_True_iff:
  "cells_eq ps az th = Inr True \<longleftrightarrow> (\<forall>p \<in> set ps. simple_value_eq (fst p) (snd p) az th = Inr True)"
  by (induction ps az th rule: cells_eq.induct) (auto split: sum.splits bool.splits)

lemma columns_eq_True_iff:
  "columns_eq cols v1 v2 az th = Inr True \<longleftrightarrow>
     (\<forall>c \<in> set cols. cells_eq (zip (column v1 c) (column v2 c)) az th = Inr True)"
  by (induction cols v1 v2 az th rule: columns_eq.induct) (auto split: sum.splits bool.splits)


lemma value_eq_cells: "value_eq (Plain x1) (Plain x2) az th = simple_value_eq x1 x2 az th"
  by (simp add: value_eq_def)



lemma pseudo_zero_cases:
  "pseudo_zero v \<longleftrightarrow> v = PNone \<or> v = PStr [] \<or> v = PNaN \<or> (is_number v \<and> v \<noteq> PNaN \<and> num v = 0)"
  by (cases v) (auto simp: pseudo_zero_def pseudo_nan_def)

text \<open>
  C7. With \<open>all_zero\<close> true, any two values that are like zero (a number equal to zero,
  None, the empty string, not-a-number) are equal under \<open>value_eq\<close>, for every
  \<open>thresh\<close>; two strings are equal under \<open>value_eq\<close> exactly when they are the same
  string; and unless both values are strings, \<open>value_eq\<close> with \<open>all_zero\<close> true is
  \<open>value_eq\<close> with \<open>all_zero\<close> false on the two values after each one that is like zero
  has been replaced by 0.0.
\<close>

theorem value_eq_pseudo_zero:
  "(pseudo_zero v1 \<and> pseudo_zero v2 \<longrightarrow>
      value_eq (Plain (YScalar v1)) (Plain (YScalar v2)) True thresh = Inr True)
   \<and> value_eq (Plain (YScalar (PStr s1))) (Plain (YScalar (PStr s2))) all_zero thresh = Inr (s1 = s2)
   \<and> (\<not> (is_str y1 \<and> is_str y2) \<longrightarrow>
        value_eq (Plain y1) (Plain y2) True thresh
          = value_eq (Plain (zero_norm True y1)) (Plain (zero_norm True y2)) False thresh)"
proof (intro conjI impI)
  assume "pseudo_zero v1 \<and> pseudo_zero v2"
  then show "value_eq (Plain (YScalar v1)) (Plain (YScalar v2)) True thresh = Inr True"
    by (cases v1; cases v2)
       (auto simp: value_eq_def simple_value_eq_def zero_norm_def approx_eq_def approx_scalar_def
          pseudo_zero_def pseudo_nan_def)
next
  show "value_eq (Plain (YScalar (PStr s1))) (Plain (YScalar (PStr s2))) all_zero thresh = Inr (s1 = s2)"
    by (simp add: value_eq_def simple_value_eq_def)
next
  assume ns: "\<not> (is_str y1 \<and> is_str y2)"
  have a: "is_str (zero_norm True y) \<Longrightarrow> is_str y" for y
    by (cases y rule: is_str.cases) (auto simp: zero_norm_def split: if_splits)
  have b: "zero_norm False y = y" for y by (simp add: zero_norm_def)
  from ns a have "\<not> (is_str (zero_norm True y1) \<and> is_str (zero_norm True y2))" by blast
  then have "simple_value_eq (zero_norm True y1) (zero_norm True y2) False thresh
      = simple_value_eq y1 y2 True thresh"
    unfolding simple_value_eq_def if_not_P[OF ns] by (simp only: if_False b Let_def)
  then show "value_eq (Plain y1) (Plain y2) True thresh
          = value_eq (Plain (zero_norm True y1)) (Plain (zero_norm True y2)) False thresh"
    by (simp add: value_eq_def)
qed

theorem value_eq_pseudo_zero_witness:
  "pseudo_zero PNone \<and> pseudo_zero (PStr []) \<and> pseudo_zero PNaN \<and> pseudo_zero (PInt 0)
   \<and> pseudo_zero (PFloat 0)
   \<and> value_eq (Plain (YScalar PNone)) (Plain (YScalar (PStr []))) True default_thresh = Inr True
   \<and> value_eq (Plain (YScalar PNaN)) (Plain (YScalar (PInt 0))) True default_thresh = Inr True
   \<and> value_eq (Plain (YScalar (PStr []))) (Plain (YScalar (PFloat 0))) True default_thresh = Inr True
   \<and> value_eq (Plain (YScalar (PStr []))) (Plain (YScalar (PStr '' ''))) True default_thresh = Inr False
   \<and> \<not> (is_str (YScalar (PStr [])) \<and> is_str (YScalar (PInt 1)))
   \<and> value_eq (Plain (YScalar (PStr []))) (Plain (YScalar (PInt 1))) True default_thresh
       = value_eq (Plain (YScalar (PFloat 0))) (Plain (YScalar (PInt 1))) False default_thresh"
proof -
  have z: "pseudo_zero PNone" "pseudo_zero (PStr [])" "pseudo_zero PNaN" "pseudo_zero (PInt 0)"
    "pseudo_zero (PFloat 0)"
    by (simp_all add: pseudo_zero_def pseudo_nan_def)
  have n: "\<not> (is_str (YScalar (PStr [])) \<and> is_str (YScalar (PInt 1)))" by simp
  have zn: "zero_norm True (YScalar (PStr [])) = YScalar (PFloat 0)"
    "zero_norm True (YScalar (PInt 1)) = YScalar (PInt 1)"
    by (simp_all add: zero_norm_def pseudo_zero_def pseudo_nan_def)
  from value_eq_pseudo_zero [of PNone "PStr []" default_thresh "[]" "'' ''" True
      "YScalar (PStr [])" "YScalar (PInt 1)"]
    value_eq_pseudo_zero [of PNaN "PInt 0" default_thresh "[]" "[]" True
      "YScalar (PStr [])" "YScalar (PInt 1)"]
    value_eq_pseudo_zero [of "PStr []" "PFloat 0" default_thresh "[]" "[]" True
      "YScalar (PStr [])" "YScalar (PInt 1)"]
    z n zn
  show ?thesis by simp
qed

section \<open>Statistics over short samples\<close>

text \<open>
  C8. The module promises not-a-number when too few values are left after the filter.
  The percentile functions keep the promise, and \<open>slow_dev\<close> keeps it for an empty
  sample; but \<open>slow_dev\<close> on one value, and \<open>shi_dev\<close> on no value or on one, end in the
  \<open>StatisticsError\<close> of the \<open>statistics\<close> module.
\<close>

theorem stats_short_sample:
  "slow_dev [PFloat 1] 1 False = Inl StatisticsError
   \<and> shi_dev [] 1 = Inl StatisticsError
   \<and> shi_dev [PNone, PStr [], PNaN] 1 = Inl StatisticsError
   \<and> shi_dev [PFloat 1] 1 = Inl StatisticsError
   \<and> slow_dev [] 1 False = Inr PNaN
   \<and> s25_ile [PFloat 1, PFloat 2, PNone] = Inr PNaN
   \<and> s75_ile [PFloat 1, PFloat 2, PNone] = Inr PNaN"
  by (simp add: slow_dev_def shi_dev_def s25_ile_def s75_ile_def filter_nans_def pseudo_nan_def
       statistics_mean_def statistics_stdev_def bind_def)

lemma percentiles_short_sample:
  "length (filter_nans vs) \<le> 2 \<Longrightarrow> s25_ile vs = Inr PNaN \<and> s75_ile vs = Inr PNaN"
  by (simp add: s25_ile_def s75_ile_def)

section \<open>Locking\<close>

text \<open>
  C10. \<open>lock()\<close> stores the flag through \<open>__setattr__\<close>, which refuses every write on a
  locked instance: on an instance that is already locked, \<open>lock()\<close> raises the
  \<open>AttributeError\<close> "Cannot set parameter of locked Parameter Set".
\<close>

theorem lock_twice: "ps_locked ps \<Longrightarrow> lock ps = Inl (AttributeError CannotSetLocked)"
  by (simp add: lock_def py_setattr_def islocked_def)

theorem lock_twice_witness:
  "lock sample_empty = Inr sample_locked \<and> ps_locked sample_locked
   \<and> lock sample_locked = Inl (AttributeError CannotSetLocked)"
proof -
  have a: "lock sample_empty = Inr sample_locked"
    by (simp add: lock_def py_setattr_def islocked_def object_setattr_def sample_empty_def
          sample_locked_def parameter_names_def SamplePS_def)
  have b: "ps_locked sample_locked" by (simp add: sample_locked_def)
  from a b lock_twice [OF b] show ?thesis by simp
qed

section \<open>Serialization and construction\<close>

lemma find_fname:
  "p \<in> set (map fname fs) \<Longrightarrow> \<exists>fd. find (\<lambda>f. fname f = p) fs = Some fd \<and> fname fd = p \<and> fd \<in> set fs"
  by (induction fs) auto

lemma field_data_name:
  "p \<in> set (parameter_names c) \<Longrightarrow> \<exists>fd. field_data c p = Some fd \<and> fname fd = p \<and> fd \<in> set (cfields c)"
  using find_fname[of p "cfields c"] by (auto simp: field_data_def parameter_names_def)

lemma wf_not_locked_name: "wf_class c \<Longrightarrow> p \<in> set (parameter_names c) \<Longrightarrow> p \<noteq> ''_locked''"
  by (force simp: wf_class_def parameter_names_def)

lemma getitem_value:
  "p \<in> set (parameter_names (ps_cls ps)) \<Longrightarrow> getitem ps p = Inr (the_value ps p)"
  using field_data_name[of p "ps_cls ps"]
  by (auto simp: getitem_def py_getattr_def the_value_def split: option.splits)

lemma the_value_attrs:
  "wf_class (ps_cls ps) \<Longrightarrow> p \<in> set (parameter_names (ps_cls ps)) \<Longrightarrow>
   the_value ps p = (case ps_attrs ps p of Some v \<Rightarrow> v | None \<Rightarrow> field_default (ps_cls ps) p)"
  using field_data_name[of p "ps_cls ps"] wf_not_locked_name[of "ps_cls ps" p]
  by (auto simp: py_getattr_def the_value_def field_default_def split: option.splits)

lemma meta_value:
  "p \<in> set (parameter_names (ps_cls ps)) \<Longrightarrow> meta ps p = Inr (the_meta ps p)"
  by (simp add: meta_def the_meta_def)

lemma yaml_items_eq:
  "set ns \<subseteq> set (parameter_names (ps_cls ps)) \<Longrightarrow>
   yaml_items ps c ns = Inr (map (\<lambda>p. (p, ser ps p)) (filter (\<lambda>p. c \<longrightarrow> p \<in> ps_set ps) ns))"
  by (induction ns)
     (auto simp: getitem_value meta_value bind_def ser_def wrap_def yaml_value_def Let_def)

lemma to_yaml_form_eq:
  "to_yaml_form ps c = Inr (map (\<lambda>p. (p, ser ps p))
      (filter (\<lambda>p. c \<longrightarrow> p \<in> ps_set ps) (parameter_names (ps_cls ps))))"
  by (simp add: to_yaml_form_def yaml_items_eq)

lemma index_union_subset: "set ks \<subseteq> set acc \<Longrightarrow> index_union acc ks = acc"
  unfolding index_union_def by (induction ks arbitrary: acc) auto

lemma index_union_fresh:
  "distinct ks \<Longrightarrow> set acc \<inter> set ks = {} \<Longrightarrow> index_union acc ks = acc @ ks"
  unfolding index_union_def by (induction ks arbitrary: acc) auto

lemma fold_index_same:
  "\<forall>c \<in> set cs. row_keys (snd c) = idx \<Longrightarrow>
   fold (\<lambda>c acc. index_union acc (row_keys (snd c))) cs idx = idx"
  by (induction cs) (auto simp: index_union_subset)

lemma fold_index_nil:
  "cs \<noteq> [] \<Longrightarrow> distinct idx \<Longrightarrow> \<forall>c \<in> set cs. row_keys (snd c) = idx \<Longrightarrow>
   fold (\<lambda>c acc. index_union acc (row_keys (snd c))) cs [] = idx"
  by (cases cs) (auto simp: index_union_fresh[of _ "[]", simplified] fold_index_same)

lemma cells_of_zip:
  "distinct idx \<Longrightarrow> length cells = length idx \<Longrightarrow>
   map (\<lambda>r. case map_of (zip idx cells) r of Some x \<Rightarrow> x | None \<Rightarrow> d) idx = cells"
  by (rule nth_equalityI) (auto simp: map_of_zip_nth)

lemma from_dict_to_dict:
  assumes "wf_frame df" and "df_columns df \<noteq> []"
  shows "from_dict (to_dict df) = Inr df"
proof -
  obtain idx cols where df: "df = DataFrame idx cols" by (cases df)
  from assms have d: "distinct idx" and ne: "cols \<noteq> []"
    and len: "\<forall>c \<in> set cols. length (snd c) = length idx"
    by (auto simp: wf_frame_def df list_all_iff)
  let ?cols = "map (\<lambda>(c, cells). (c, YMap (zip idx cells))) cols"
  have maps: "\<forall>c \<in> set ?cols. is_map (snd c)" by auto
  have notall: "\<not> list_all (\<lambda>c. \<not> is_map (snd c)) ?cols"
    using ne maps by (cases cols) auto
  have keys: "\<forall>c \<in> set ?cols. row_keys (snd c) = idx"
    using len by auto
  have idx: "fold (\<lambda>c acc. index_union acc (row_keys (snd c))) ?cols [] = idx"
    using ne d keys by (intro fold_index_nil) auto
  have cell: "(fst c, column_cells idx (YMap (zip idx (snd c)))) = c" if "c \<in> set cols" for c
  proof -
    have "length (snd c) = length idx" using that len by simp
    then have "column_cells idx (YMap (zip idx (snd c))) = snd c"
      using d by (simp add: cells_of_zip)
    then show ?thesis by simp
  qed
  have "map (\<lambda>c. (fst c, column_cells idx (snd c))) ?cols
      = map (\<lambda>c. (fst c, column_cells idx (YMap (zip idx (snd c))))) cols"
    by (simp add: case_prod_beta)
  also have "\<dots> = map (\<lambda>c. c) cols" using cell by (intro map_cong) auto
  finally have cells: "map (\<lambda>c. (fst c, column_cells idx (snd c))) ?cols = cols" by simp
  show ?thesis
    unfolding from_dict_def to_dict_def df
    using notall idx cells by (simp add: Let_def)
qed

lemma is_wrapped_wrap:
  "storable pd v m \<Longrightarrow> is_wrapped (wrap (yaml_value v) m) = (m \<noteq> YScalar PNone)"
  by (cases v) (auto simp: wrap_def yaml_value_def)

lemma dict_get_wrap:
  "m \<noteq> YScalar PNone \<Longrightarrow> dict_get (wrap y m) (KStr ''value'') = y \<and> dict_get (wrap y m) (KStr ''meta'') = m"
  by (simp add: wrap_def dict_get_def)

lemma wrap_None: "wrap y (YScalar PNone) = y"
  by (simp add: wrap_def)

lemma to_dict_not_None: "to_dict df \<noteq> YScalar PNone"
  by (simp add: to_dict_def)

lemma initialize_value_storable:
  "storable (pdtype fd) v m \<Longrightarrow> initialize_value k (yaml_value v) fd = Inr v"
  by (cases v)
     (auto simp: initialize_value_def yaml_value_def bind_def from_dict_to_dict to_dict_not_None)

lemma init_items_skip:
  "field_data (ps_cls ps) p = None \<Longrightarrow> init_items ps ((p, x) # rest) = init_items ps rest"
  by simp

lemma init_items_step:
  assumes wf: "wf_class (ps_cls ps)" and unl: "\<not> ps_locked ps"
    and fd: "field_data (ps_cls ps) p = Some fd" and p: "p \<in> set (parameter_names (ps_cls ps))"
    and st: "storable (pdtype fd) v m"
  shows "init_items ps ((p, wrap (yaml_value v) m) # rest) =
         init_items (ps\<lparr>ps_meta := (if m \<noteq> YScalar PNone then (ps_meta ps)(p \<mapsto> m) else ps_meta ps),
                        ps_attrs := (ps_attrs ps)(p \<mapsto> v),
                        ps_set := insert p (ps_set ps)\<rparr>) rest"
proof (cases "m = YScalar PNone")
  case True
  have nw: "\<not> is_wrapped (yaml_value v)" using is_wrapped_wrap[OF st] True by (simp add: wrap_None)
  show ?thesis
    using True nw fd p unl wf_not_locked_name[OF wf p] initialize_value_storable[OF st, of p]
    by (simp add: wrap_None bind_def setitem_def py_setattr_def islocked_def object_setattr_def Let_def)
next
  case False
  have w: "is_wrapped (wrap (yaml_value v) m)" using is_wrapped_wrap[OF st] False by simp
  show ?thesis
    using False w fd p unl wf_not_locked_name[OF wf p] initialize_value_storable[OF st, of p]
      dict_get_wrap[OF False, of "yaml_value v"]
    by (simp add: bind_def setitem_def py_setattr_def islocked_def object_setattr_def Let_def)
qed

lemma init_items_ser:
  assumes wf: "wf_class c"
  shows "ps_cls ps = c \<Longrightarrow> \<not> ps_locked ps \<Longrightarrow> \<forall>p \<in> set ns. loadable c src p \<Longrightarrow>
     \<exists>ps'. init_items ps (map (\<lambda>p. (p, ser src p)) ns) = Inr ps' \<and> ps_cls ps' = c \<and> \<not> ps_locked ps' \<and>
       ps_set ps' = ps_set ps \<union> (set ns \<inter> set (parameter_names c)) \<and>
       (\<forall>k. ps_attrs ps' k = (if k \<in> set ns \<inter> set (parameter_names c) then Some (the_value src k) else ps_attrs ps k)) \<and>
       (\<forall>k. ps_meta ps' k = (if k \<in> set ns \<inter> set (parameter_names c) \<and> the_meta src k \<noteq> YScalar PNone
                              then Some (the_meta src k) else ps_meta ps k))"
proof (induction ns arbitrary: ps)
  case Nil
  then show ?case by simp
next
  case (Cons p ns)
  show ?case
  proof (cases "field_data c p")
    case None
    then have notin: "p \<notin> set (parameter_names c)" using field_data_name[of p c] by auto
    from Cons.IH[of ps] Cons.prems None notin show ?thesis
      by (auto simp: init_items_skip)
  next
    case (Some fd)
    with Cons.prems have p: "p \<in> set (parameter_names c)"
      and st: "storable (pdtype fd) (the_value src p) (the_meta src p)"
      by (auto simp: loadable_def)
    let ?ps1 = "ps\<lparr>ps_meta := (if the_meta src p \<noteq> YScalar PNone then (ps_meta ps)(p \<mapsto> the_meta src p) else ps_meta ps),
                        ps_attrs := (ps_attrs ps)(p \<mapsto> the_value src p),
                        ps_set := insert p (ps_set ps)\<rparr>"
    have step: "init_items ps (map (\<lambda>p. (p, ser src p)) (p # ns)) = init_items ?ps1 (map (\<lambda>p. (p, ser src p)) ns)"
      using init_items_step[of ps p fd "the_value src p" "the_meta src p"] wf Cons.prems Some p st
      by (simp add: ser_def)
    have "ps_cls ?ps1 = c" "\<not> ps_locked ?ps1" using Cons.prems by auto
    from Cons.IH[OF this] Cons.prems(3) obtain ps' where
      r: "init_items ?ps1 (map (\<lambda>p. (p, ser src p)) ns) = Inr ps'" "ps_cls ps' = c" "\<not> ps_locked ps'"
        "ps_set ps' = ps_set ?ps1 \<union> (set ns \<inter> set (parameter_names c))"
        "\<forall>k. ps_attrs ps' k = (if k \<in> set ns \<inter> set (parameter_names c) then Some (the_value src k) else ps_attrs ?ps1 k)"
        "\<forall>k. ps_meta ps' k = (if k \<in> set ns \<inter> set (parameter_names c) \<and> the_meta src k \<noteq> YScalar PNone
                              then Some (the_meta src k) else ps_meta ?ps1 k)"
      by auto
    show ?thesis
      apply (rule exI[of _ ps'])
      using r p step by auto
  qed
qed

lemma init_from_yaml_form:
  assumes wf: "wf_class c" and ser: "serializable c src"
  shows "\<exists>n. bind (to_yaml_form src True) (ParameterSet_init c) = Inr n \<and> ps_cls n = c \<and> \<not> ps_locked n \<and>
     ps_set n = ps_set src \<inter> set (parameter_names (ps_cls src)) \<inter> set (parameter_names c) \<and>
     (\<forall>k. ps_attrs n k = (if k \<in> ps_set src \<inter> set (parameter_names (ps_cls src)) \<inter> set (parameter_names c)
                            then Some (the_value src k) else None)) \<and>
     (\<forall>k. ps_meta n k = (if k \<in> ps_set src \<inter> set (parameter_names (ps_cls src)) \<inter> set (parameter_names c)
                               \<and> the_meta src k \<noteq> YScalar PNone
                            then Some (the_meta src k) else None))"
proof -
  let ?ns = "filter (\<lambda>p. p \<in> ps_set src) (parameter_names (ps_cls src))"
  let ?fresh = "\<lparr>ps_cls = c, ps_attrs = Map.empty, ps_locked = False, ps_meta = Map.empty, ps_set = {}\<rparr>"
  have y: "to_yaml_form src True = Inr (map (\<lambda>p. (p, ser src p)) ?ns)"
    by (simp add: to_yaml_form_eq)
  have l: "\<forall>p \<in> set ?ns. loadable c src p"
    using ser by (auto simp: serializable_def list_all_iff)
  have s: "set ?ns = ps_set src \<inter> set (parameter_names (ps_cls src))" by auto
  from init_items_ser[OF wf, of ?fresh ?ns src] l
  obtain n where n: "init_items ?fresh (map (\<lambda>p. (p, ser src p)) ?ns) = Inr n" "ps_cls n = c"
    "\<not> ps_locked n"
    "ps_set n = ps_set ?fresh \<union> (set ?ns \<inter> set (parameter_names c))"
    "\<forall>k. ps_attrs n k = (if k \<in> set ?ns \<inter> set (parameter_names c) then Some (the_value src k) else ps_attrs ?fresh k)"
    "\<forall>k. ps_meta n k = (if k \<in> set ?ns \<inter> set (parameter_names c) \<and> the_meta src k \<noteq> YScalar PNone
                              then Some (the_meta src k) else ps_meta ?fresh k)"
    by auto
  show ?thesis
    apply (rule exI[of _ n])
    using n unfolding s by (simp add: y bind_def ParameterSet_init_def)
qed

lemma copy_ok:
  assumes wf: "wf_class (ps_cls ps)" and ser: "serializable (ps_cls ps) ps"
  shows "\<exists>n. copy ps = Inr n \<and> ps_cls n = ps_cls ps \<and> \<not> ps_locked n \<and>
     ps_set n = ps_set ps \<inter> set (parameter_names (ps_cls ps)) \<and>
     (\<forall>k. ps_attrs n k = (if k \<in> ps_set ps \<inter> set (parameter_names (ps_cls ps))
                            then Some (the_value ps k) else None)) \<and>
     (\<forall>k. ps_meta n k = (if k \<in> ps_set ps \<inter> set (parameter_names (ps_cls ps))
                               \<and> the_meta ps k \<noteq> YScalar PNone
                            then Some (the_meta ps k) else None))"
  using init_from_yaml_form[OF wf ser] by (simp add: copy_def Int_assoc)

section \<open>Evaluation of the examples\<close>

lemmas eval_defs = ParameterSet_init_def setitem_def py_setattr_def islocked_def object_setattr_def
  parameter_names_def field_data_def initialize_value_def bind_def getitem_def py_getattr_def
  meta_def set_meta_def to_yaml_form_def copy_def dict_get_def Let_def lock_def
  SamplePS_def DerivedPS_def sample_empty_def sample_locked_def sample1_def sample2_def
  sample_b10_def data1_def data2_def

lemma from_world: "from_dict world_raw = Inr world_df"
  by (simp add: from_dict_def world_raw_def world_df_def index_union_def)

lemma world_plain: "\<not> is_wrapped world_raw" "world_raw \<noteq> YScalar PNone"
  "to_dict world_df = world_raw"
  by (simp_all add: world_raw_def to_dict_def world_df_def)


lemma wf_SamplePS: "wf_class SamplePS"
  by (simp add: wf_class_def SamplePS_def)


lemma init_data2: "ParameterSet_init SamplePS data2 = Inr sample2"
  by (simp add: eval_defs from_world world_plain insert_commute)

section \<open>Compact serialization\<close>

text \<open>
  C3 (as amended). For every instance and every parameter \<open>f\<close> of its class,
  \<open>_to_yaml_form(compact=True)\<close> omits \<open>f\<close> exactly when \<open>f\<close> is not in \<open>_set\<close>, and
  writes an explicit parameter with its value, wrapped with its metadata when it has
  some. An entry in \<open>_meta\<close> alone does not keep a parameter in the compact form.
\<close>

theorem compact_omits_iff:
  assumes "f \<in> set (parameter_names (ps_cls ps))"
  shows "\<exists>the_data. to_yaml_form ps True = Inr the_data \<and>
           (f \<notin> fst ` set the_data \<longleftrightarrow> f \<notin> ps_set ps) \<and>
           (f \<in> ps_set ps \<longrightarrow> map_of the_data f = Some (ser ps f))"
proof -
  let ?d = "map (\<lambda>p. (p, ser ps p)) (filter (\<lambda>p. p \<in> ps_set ps) (parameter_names (ps_cls ps)))"
  have "to_yaml_form ps True = Inr ?d" by (simp add: to_yaml_form_eq)
  moreover have "f \<notin> fst ` set ?d \<longleftrightarrow> f \<notin> ps_set ps" using assms by (auto simp: image_iff)
  moreover have "f \<in> ps_set ps \<longrightarrow> map_of ?d f = Some (ser ps f)"
    using assms by (auto simp: map_of_map_restrict restrict_map_def)
  ultimately show ?thesis by blast
qed

theorem compact_omits_iff_witness:
  "''paramC'' \<in> set (parameter_names (ps_cls sample2)) \<and> ''paramC'' \<notin> ps_set sample2
   \<and> ''paramB'' \<in> set (parameter_names (ps_cls sample2)) \<and> ''paramB'' \<in> ps_set sample2
   \<and> (\<exists>the_data. to_yaml_form sample2 True = Inr the_data
         \<and> ''paramC'' \<notin> fst ` set the_data \<and> ''paramB'' \<in> fst ` set the_data
         \<and> map_of the_data ''paramB'' = Some (ser sample2 ''paramB''))"
proof -
  have c: "''paramC'' \<in> set (parameter_names (ps_cls sample2))" "''paramC'' \<notin> ps_set sample2"
    and b: "''paramB'' \<in> set (parameter_names (ps_cls sample2))" "''paramB'' \<in> ps_set sample2"
    by (simp_all add: eval_defs)
  from compact_omits_iff [OF c(1)] obtain d1 where d1: "to_yaml_form sample2 True = Inr d1"
    "''paramC'' \<notin> fst ` set d1 \<longleftrightarrow> ''paramC'' \<notin> ps_set sample2" by blast
  from compact_omits_iff [OF b(1)] obtain d2 where d2: "to_yaml_form sample2 True = Inr d2"
    "''paramB'' \<notin> fst ` set d2 \<longleftrightarrow> ''paramB'' \<notin> ps_set sample2"
    "''paramB'' \<in> ps_set sample2 \<longrightarrow> map_of d2 ''paramB'' = Some (ser sample2 ''paramB'')" by blast
  from d1(1) d2(1) have e: "d1 = d2" by simp
  from d1 d2 b c show ?thesis unfolding e by blast
qed

text \<open>
  C3 as stated fails on the tests' own \<open>ps2.delta_from(ps1)\<close>: the result has metadata
  for \<open>paramB\<close>, \<open>paramB\<close> is not in its \<open>_set\<close>, and its compact form holds \<open>paramA\<close>
  only.
\<close>

theorem compact_drops_metadata:
  "map_sum id (\<lambda>d. (ps_meta d ''paramB'', ''paramB'' \<in> ps_set d, map_sum id (map fst) (to_yaml_form d True)))
     (delta_from sample2 sample1)
   = Inr (Some (YScalar (PStr ''I have metadata'')), False, Inr [''paramA''])"
  by (simp add: eval_defs to_dict_def world_df_def world_raw_def from_dict_def index_union_def
      delta_from_def value_eq_def df_value_eq_def simple_value_eq_def zero_norm_def
      approx_eq_def approx_scalar_def pseudo_zero_def pseudo_nan_def default_thresh_def
      column_def field_default_def)

section \<open>Copies\<close>


lemma ser_sample2: "serializable SamplePS sample2"
  by (simp add: serializable_def loadable_def the_value_def the_meta_def eval_defs
      world_df_def wf_frame_def to_dict_def)



section \<open>Attribute access and bracket access\<close>




section \<open>Names that are not parameters\<close>

text \<open>
  C9 (as amended). For a name \<open>n\<close> that is not a parameter of the class, \<open>ps[n]\<close>,
  \<open>ps[n] = v\<close> and \<open>meta(n)\<close> raise "No such parameter"; \<open>set_meta(n, m)\<close> raises it on an
  unlocked instance and raises "Cannot alter value of locked Parameter Set" on a locked
  one, where the lock is tested first. None of the calls returns a value or changes the
  instance.
\<close>

theorem unknown_parameter:
  assumes "n \<notin> set (parameter_names (ps_cls ps))"
  shows "getitem ps n = Inl (AttributeError (NoSuchParameter n))
     \<and> setitem ps n v = Inl (AttributeError (NoSuchParameter n))
     \<and> meta ps n = Inl (AttributeError (NoSuchParameter n))
     \<and> set_meta ps n m
         = Inl (AttributeError (if ps_locked ps then CannotAlterLocked n else NoSuchParameter n))
     \<and> after ps (setitem ps n v) = ps \<and> after ps (set_meta ps n m) = ps
     \<and> UnknownParameterError (AttributeError (NoSuchParameter n))
     \<and> \<not> UnknownParameterError (AttributeError (CannotAlterLocked n))
     \<and> LockedError (AttributeError (CannotAlterLocked n))"
  using assms by (simp add: getitem_def setitem_def meta_def set_meta_def islocked_def after_def)

theorem unknown_parameter_witness:
  "''noSuchParam'' \<notin> set (parameter_names (ps_cls sample1))
   \<and> getitem sample1 ''noSuchParam'' = Inl (AttributeError (NoSuchParameter ''noSuchParam''))
   \<and> setitem sample1 ''noSuchParam'' (Plain (YScalar (PInt 1)))
        = Inl (AttributeError (NoSuchParameter ''noSuchParam''))
   \<and> meta sample1 ''noSuchParam'' = Inl (AttributeError (NoSuchParameter ''noSuchParam''))
   \<and> set_meta sample1 ''noSuchParam'' (YScalar (PStr ''x''))
        = Inl (AttributeError (NoSuchParameter ''noSuchParam''))"
proof -
  have h: "''noSuchParam'' \<notin> set (parameter_names (ps_cls sample1))" "\<not> ps_locked sample1"
    by (simp_all add: eval_defs)
  from unknown_parameter [OF h(1), of "Plain (YScalar (PInt 1))" "YScalar (PStr ''x'')"] h
  show ?thesis by simp
qed

text \<open>
  C9 as stated fails on a locked instance: \<open>set_meta\<close> with an unknown name raises the
  error of the lock, not the error of the unknown name.
\<close>

theorem set_meta_locked_unknown:
  "lock sample_empty = Inr sample_locked
   \<and> ''noSuchParam'' \<notin> set (parameter_names (ps_cls sample_locked))
   \<and> set_meta sample_locked ''noSuchParam'' (YScalar (PStr ''x''))
        = Inl (AttributeError (CannotAlterLocked ''noSuchParam''))
   \<and> \<not> UnknownParameterError (AttributeError (CannotAlterLocked ''noSuchParam''))"
  by (simp add: eval_defs)

section \<open>Locked instances and their copies\<close>

text \<open>
  C5 (as amended). On a locked instance every \<open>ps.n = v\<close>, \<open>ps[n] = v\<close> and
  \<open>set_meta(n, m)\<close> raises and changes nothing: the error is that of the lock, except
  for \<open>ps[n] = v\<close> with a name that is not a parameter, which raises "No such
  parameter" (the name is tested first). When the class is well formed and the explicit
  parameters hold values the class reads back, \<open>copy()\<close> returns an unlocked instance on
  which \<open>ps.n = v\<close> succeeds and, for every parameter \<open>n\<close>, \<open>ps[n] = v\<close> and
  \<open>set_meta(n, m)\<close> succeed and store what they were given.
\<close>

theorem locked_is_final:
  assumes "ps_locked ps"
  shows "py_setattr ps n v = Inl (AttributeError CannotSetLocked)
     \<and> setitem ps n v = Inl (AttributeError
          (if n \<in> set (parameter_names (ps_cls ps)) then CannotSetLocked else NoSuchParameter n))
     \<and> set_meta ps n m = Inl (AttributeError (CannotAlterLocked n))
     \<and> after ps (py_setattr ps n v) = ps \<and> after ps (setitem ps n v) = ps
     \<and> after ps (set_meta ps n m) = ps
     \<and> (wf_class (ps_cls ps) \<and> serializable (ps_cls ps) ps \<longrightarrow>
          (\<exists>c. copy ps = Inr c \<and> \<not> ps_locked c
             \<and> (\<exists>c'. py_setattr c n v = Inr c')
             \<and> (n \<in> set (parameter_names (ps_cls ps)) \<longrightarrow>
                  (\<exists>c'. setitem c n v = Inr c' \<and> getitem c' n = Inr v)
                  \<and> (\<exists>c'. set_meta c n m = Inr c' \<and> meta c' n = Inr m))))"
proof -
  have a: "py_setattr ps n v = Inl (AttributeError CannotSetLocked)
     \<and> setitem ps n v = Inl (AttributeError
          (if n \<in> set (parameter_names (ps_cls ps)) then CannotSetLocked else NoSuchParameter n))
     \<and> set_meta ps n m = Inl (AttributeError (CannotAlterLocked n))
     \<and> after ps (py_setattr ps n v) = ps \<and> after ps (setitem ps n v) = ps
     \<and> after ps (set_meta ps n m) = ps"
    using assms by (simp add: py_setattr_def setitem_def set_meta_def islocked_def after_def)
  have b: "\<exists>c. copy ps = Inr c \<and> \<not> ps_locked c
             \<and> (\<exists>c'. py_setattr c n v = Inr c')
             \<and> (n \<in> set (parameter_names (ps_cls ps)) \<longrightarrow>
                  (\<exists>c'. setitem c n v = Inr c' \<and> getitem c' n = Inr v)
                  \<and> (\<exists>c'. set_meta c n m = Inr c' \<and> meta c' n = Inr m))"
    if wf: "wf_class (ps_cls ps)" and se: "serializable (ps_cls ps) ps"
  proof -
    from copy_ok[OF wf se] obtain c where c: "copy ps = Inr c" "ps_cls c = ps_cls ps" "\<not> ps_locked c"
      by blast
    have 1: "\<exists>c'. py_setattr c n v = Inr c'"
      using c(3) by (simp add: py_setattr_def islocked_def Let_def)
    have 2: "(\<exists>c'. setitem c n v = Inr c' \<and> getitem c' n = Inr v)
                  \<and> (\<exists>c'. set_meta c n m = Inr c' \<and> meta c' n = Inr m)"
      if n: "n \<in> set (parameter_names (ps_cls ps))"
      using c(2,3) n wf_not_locked_name[OF wf n]
      by (simp add: setitem_def py_setattr_def islocked_def object_setattr_def Let_def
            getitem_def py_getattr_def set_meta_def meta_def)
    from c 1 2 show ?thesis by blast
  qed
  from a b show ?thesis by blast
qed

lemma ser_sample_locked: "serializable SamplePS sample_locked"
  by (simp add: serializable_def eval_defs)

theorem locked_is_final_witness:
  "lock sample_empty = Inr sample_locked \<and> ps_locked sample_locked
   \<and> wf_class (ps_cls sample_locked) \<and> serializable (ps_cls sample_locked) sample_locked
   \<and> ''paramA'' \<in> set (parameter_names (ps_cls sample_locked))
   \<and> setitem sample_locked ''paramA'' (Plain (YScalar (PInt 0))) = Inl (AttributeError CannotSetLocked)
   \<and> set_meta sample_locked ''paramA'' (YScalar (PStr ''x''))
        = Inl (AttributeError (CannotAlterLocked ''paramA''))
   \<and> (\<exists>c. copy sample_locked = Inr c \<and> \<not> ps_locked c
        \<and> (\<exists>c'. setitem c ''paramA'' (Plain (YScalar (PInt 0))) = Inr c'
                 \<and> getitem c' ''paramA'' = Inr (Plain (YScalar (PInt 0))))
        \<and> (\<exists>c'. set_meta c ''paramA'' (YScalar (PStr ''x'')) = Inr c'
                 \<and> meta c' ''paramA'' = Inr (YScalar (PStr ''x''))))"
proof -
  have h: "lock sample_empty = Inr sample_locked" "ps_locked sample_locked"
    "''paramA'' \<in> set (parameter_names (ps_cls sample_locked))"
    "ps_cls sample_locked = SamplePS"
    by (simp_all add: eval_defs)
  have wf: "wf_class (ps_cls sample_locked)" by (simp add: h wf_SamplePS)
  have se: "serializable (ps_cls sample_locked) sample_locked" by (simp add: h ser_sample_locked)
  note t = locked_is_final [OF h(2), of "''paramA''" "Plain (YScalar (PInt 0))" "YScalar (PStr ''x'')"]
  from t h(3) have s1: "setitem sample_locked ''paramA'' (Plain (YScalar (PInt 0)))
      = Inl (AttributeError CannotSetLocked)" by simp
  from t have s2: "set_meta sample_locked ''paramA'' (YScalar (PStr ''x''))
      = Inl (AttributeError (CannotAlterLocked ''paramA''))" by simp
  from t wf se h(3) have s3: "\<exists>c. copy sample_locked = Inr c \<and> \<not> ps_locked c
        \<and> (\<exists>c'. setitem c ''paramA'' (Plain (YScalar (PInt 0))) = Inr c'
                 \<and> getitem c' ''paramA'' = Inr (Plain (YScalar (PInt 0))))
        \<and> (\<exists>c'. set_meta c ''paramA'' (YScalar (PStr ''x'')) = Inr c'
                 \<and> meta c' ''paramA'' = Inr (YScalar (PStr ''x'')))"
    by blast
  from h(1,2,3) wf se s1 s2 s3 show ?thesis by blast
qed

text \<open>
  C5 as stated fails twice: on a locked instance \<open>ps['noSuchParam'] = 0\<close> raises "No such
  parameter", and the locked instance obtained by \<open>ps.paramB = 10; ps.lock()\<close> has no
  copy, because the constructor cannot rebuild a table from 10 (\<open>ValueError\<close>).
\<close>

theorem locked_counterexamples:
  "ps_locked sample_locked
   \<and> setitem sample_locked ''noSuchParam'' (Plain (YScalar (PInt 0)))
        = Inl (AttributeError (NoSuchParameter ''noSuchParam''))
   \<and> \<not> LockedError (AttributeError (NoSuchParameter ''noSuchParam''))
   \<and> bind (setitem sample_empty ''paramB'' (Plain (YScalar (PInt 10)))) lock = Inr sample_b10
   \<and> ps_locked sample_b10
   \<and> copy sample_b10 = Inl ValueError"
  by (simp add: eval_defs from_dict_def)

section \<open>Tolerant equality never fails on scalars and tables of scalars\<close>

lemma thresh_pos: "\<not> default_thresh < 0"
  by (simp add: default_thresh_def)

lemma approx_scalar_total:
  "approx_scalar y x default_thresh = Inr True \<or> approx_scalar y x default_thresh = Inr False"
  by (cases y) (auto simp: approx_scalar_def thresh_pos)

lemma zero_norm_not_map: "\<not> is_map y \<Longrightarrow> \<not> is_map (zero_norm b y)"
  by (simp add: zero_norm_def)

lemma simple_value_eq_total:
  assumes "\<not> is_map y1" and "\<not> is_map y2"
  shows "simple_value_eq y1 y2 True default_thresh = Inr True
       \<or> simple_value_eq y1 y2 True default_thresh = Inr False"
proof -
  from assms(2) have "\<not> is_map (zero_norm True y2)" by (rule zero_norm_not_map)
  then obtain s2 where s2: "zero_norm True y2 = YScalar s2"
    by (cases "zero_norm True y2") auto
  show ?thesis
    using approx_scalar_total[of "zero_norm True y1" s2]
    by (auto simp: simple_value_eq_def Let_def s2 approx_eq_def)
qed

lemma py_eq_refl: "s \<noteq> PNaN \<Longrightarrow> s \<noteq> PNone \<Longrightarrow> py_eq s s"
  by (cases s) auto

lemma simple_value_eq_refl:
  "\<not> is_map y \<Longrightarrow> simple_value_eq y y True default_thresh = Inr True"
proof -
  assume a: "\<not> is_map y"
  then obtain s where y: "y = YScalar s" by (cases y) auto
  show ?thesis
  proof (cases "pseudo_zero s")
    case True
    then show ?thesis
      by (cases s) (auto simp: y simple_value_eq_def zero_norm_def approx_eq_def approx_scalar_def Let_def)
  next
    case False
    then have "s \<noteq> PNaN" "s \<noteq> PNone" by (auto simp: pseudo_zero_def pseudo_nan_def)
    then have "py_eq s s" by (rule py_eq_refl)
    with False show ?thesis
      by (cases s) (auto simp: y simple_value_eq_def zero_norm_def approx_eq_def approx_scalar_def Let_def)
  qed
qed

lemma cells_eq_total:
  "\<forall>p \<in> set ps. \<not> is_map (fst p) \<and> \<not> is_map (snd p) \<Longrightarrow>
   cells_eq ps True default_thresh = Inr True \<or> cells_eq ps True default_thresh = Inr False"
proof (induction ps)
  case Nil
  then show ?case by simp
next
  case (Cons p ps)
  obtain x1 x2 where p: "p = (x1, x2)" by (cases p)
  from Cons.prems p simple_value_eq_total[of x1 x2]
  have "simple_value_eq x1 x2 True default_thresh = Inr True
       \<or> simple_value_eq x1 x2 True default_thresh = Inr False" by auto
  with Cons show ?case by (auto simp: p)
qed

lemma column_cells_in:
  "x \<in> set (column df c) \<Longrightarrow> \<exists>col \<in> set (df_columns df). x \<in> set (snd col)"
proof -
  assume x: "x \<in> set (column df c)"
  then obtain cells where m: "map_of (df_columns df) c = Some cells" and xc: "x \<in> set cells"
    by (cases "map_of (df_columns df) c") (auto simp: column_def)
  from map_of_SomeD[OF m] xc show ?thesis by force
qed

lemma comparable_cell:
  "comparable (Frame d) \<Longrightarrow> x \<in> set (column d c) \<Longrightarrow> \<not> is_map x"
  using column_cells_in[of x d c] by (auto simp: list_all_iff)

lemma columns_eq_total:
  "comparable (Frame d1) \<Longrightarrow> comparable (Frame d2) \<Longrightarrow>
   columns_eq cols d1 d2 True default_thresh = Inr True
   \<or> columns_eq cols d1 d2 True default_thresh = Inr False"
proof (induction cols)
  case Nil
  then show ?case by simp
next
  case (Cons c cols)
  have "\<forall>p \<in> set (zip (column d1 c) (column d2 c)). \<not> is_map (fst p) \<and> \<not> is_map (snd p)"
  proof
    fix p assume p: "p \<in> set (zip (column d1 c) (column d2 c))"
    obtain a b where ab: "p = (a, b)" by (cases p)
    from p ab have "a \<in> set (column d1 c)" "b \<in> set (column d2 c)"
      by (auto dest: set_zip_leftD set_zip_rightD)
    with Cons.prems ab show "\<not> is_map (fst p) \<and> \<not> is_map (snd p)"
      using comparable_cell by auto
  qed
  from cells_eq_total[OF this] Cons show ?case by auto
qed

lemma value_eq_total:
  assumes "comparable v1" and "comparable v2"
  shows "value_eq v1 v2 True default_thresh = Inr True
       \<or> value_eq v1 v2 True default_thresh = Inr False"
proof (cases v1)
  case p1: (Plain y1)
  show ?thesis
  proof (cases v2)
    case (Plain y2)
    with p1 assms simple_value_eq_total[of y1 y2] show ?thesis by (simp add: value_eq_def)
  next
    case (Frame d2)
    with p1 show ?thesis by (simp add: value_eq_def)
  qed
next
  case f1: (Frame d1)
  show ?thesis
  proof (cases v2)
    case (Plain y2)
    with f1 show ?thesis by (simp add: value_eq_def)
  next
    case (Frame d2)
    with f1 assms columns_eq_total[of d1 d2 "map fst (df_columns d1)"] show ?thesis
      by (auto simp: value_eq_def df_value_eq_def)
  qed
qed

lemma value_eq_refl:
  assumes "comparable v" shows "value_eq v v True default_thresh = Inr True"
proof (cases v)
  case (Plain y)
  with assms show ?thesis by (simp add: value_eq_def simple_value_eq_refl)
next
  case (Frame d)
  have "cells_eq (zip (column d c) (column d c)) True default_thresh = Inr True" for c
    unfolding cells_eq_True_iff
  proof
    fix p assume p: "p \<in> set (zip (column d c) (column d c))"
    obtain a b where ab: "p = (a, b)" by (cases p)
    from p ab have e: "a = b" and "a \<in> set (column d c)" by (auto simp: zip_same)
    with assms Frame have "\<not> is_map a" using comparable_cell by auto
    then show "simple_value_eq (fst p) (snd p) True default_thresh = Inr True"
      using e ab simple_value_eq_refl by simp
  qed
  then have "columns_eq cols d d True default_thresh = Inr True" for cols
    by (simp add: columns_eq_True_iff)
  then show ?thesis by (simp add: Frame value_eq_def df_value_eq_def)
qed

section \<open>The loops of delta and merge\<close>

lemma the_value_set_upd [simp]: "the_value (ps\<lparr>ps_set := S\<rparr>) q = the_value ps q"
  by (simp add: the_value_def py_getattr_def split: option.splits)

lemma the_value_cong:
  "ps_cls a = ps_cls b \<Longrightarrow> ps_attrs a = ps_attrs b \<Longrightarrow> ps_locked a = ps_locked b \<Longrightarrow>
   the_value a q = the_value b q"
  by (simp add: the_value_def py_getattr_def split: option.splits)

lemma delta_items_ok:
  "\<forall>p \<in> set ns. p \<in> set (parameter_names (ps_cls base)) \<and> p \<in> set (parameter_names (ps_cls newps))
        \<and> comparable (the_value base p) \<and> comparable (the_value newps p)
        \<and> comparable (field_default c p) \<Longrightarrow>
   distinct ns \<Longrightarrow>
   \<exists>d. delta_items c base newps ns = Inr d \<and> ps_cls d = ps_cls newps \<and> ps_attrs d = ps_attrs newps
      \<and> ps_meta d = ps_meta newps \<and> ps_locked d = ps_locked newps
      \<and> (\<forall>p. p \<in> ps_set d \<longleftrightarrow>
            (if p \<in> set ns
             then value_eq (the_value base p) (the_value newps p) True default_thresh \<noteq> Inr True
                  \<and> (p \<in> ps_set newps
                       \<or> value_eq (the_value newps p) (field_default c p) True default_thresh = Inr True)
             else p \<in> ps_set newps))"
proof (induction ns arbitrary: newps)
  case Nil
  then show ?case by simp
next
  case (Cons q ns)
  from Cons.prems have q: "q \<in> set (parameter_names (ps_cls base))"
    "q \<in> set (parameter_names (ps_cls newps))"
    "comparable (the_value base q)" "comparable (the_value newps q)" "comparable (field_default c q)"
    and qn: "q \<notin> set ns" and dn: "distinct ns"
    by auto
  have gb: "getitem base q = Inr (the_value base q)" using q(1) by (rule getitem_value)
  have gn: "getitem newps q = Inr (the_value newps q)" using q(2) by (rule getitem_value)
  have rest: "\<forall>p \<in> set ns. p \<in> set (parameter_names (ps_cls base))
        \<and> p \<in> set (parameter_names (ps_cls (newps\<lparr>ps_set := S\<rparr>)))
        \<and> comparable (the_value base p) \<and> comparable (the_value (newps\<lparr>ps_set := S\<rparr>) p)
        \<and> comparable (field_default c p)" for S
    using Cons.prems(1) by simp
  note e1 = value_eq_total[OF q(3) q(4)]
  note e2 = value_eq_total[OF q(4) q(5)]
  show ?case
  proof (cases "value_eq (the_value base q) (the_value newps q) True default_thresh = Inr True")
    case True
    from Cons.IH[OF rest dn, of "ps_set newps - {q}"] obtain d where
      d: "delta_items c base (newps\<lparr>ps_set := ps_set newps - {q}\<rparr>) ns = Inr d"
        "ps_cls d = ps_cls newps" "ps_attrs d = ps_attrs newps" "ps_meta d = ps_meta newps"
        "ps_locked d = ps_locked newps"
        "\<forall>p. p \<in> ps_set d \<longleftrightarrow>
            (if p \<in> set ns
             then value_eq (the_value base p) (the_value newps p) True default_thresh \<noteq> Inr True
                  \<and> (p \<in> ps_set newps - {q}
                       \<or> value_eq (the_value newps p) (field_default c p) True default_thresh = Inr True)
             else p \<in> ps_set newps - {q})"
      by auto
    show ?thesis
      apply (rule exI[of _ d])
      using d True qn by (auto simp: gb gn bind_def)
  next
    case False
    with e1 have f: "value_eq (the_value base q) (the_value newps q) True default_thresh = Inr False"
      by simp
    show ?thesis
    proof (cases "value_eq (the_value newps q) (field_default c q) True default_thresh = Inr True")
      case True
      from Cons.IH[OF rest dn, of "insert q (ps_set newps)"] obtain d where
        d: "delta_items c base (newps\<lparr>ps_set := insert q (ps_set newps)\<rparr>) ns = Inr d"
        "ps_cls d = ps_cls newps" "ps_attrs d = ps_attrs newps" "ps_meta d = ps_meta newps"
        "ps_locked d = ps_locked newps"
        "\<forall>p. p \<in> ps_set d \<longleftrightarrow>
            (if p \<in> set ns
             then value_eq (the_value base p) (the_value newps p) True default_thresh \<noteq> Inr True
                  \<and> (p \<in> insert q (ps_set newps)
                       \<or> value_eq (the_value newps p) (field_default c p) True default_thresh = Inr True)
             else p \<in> insert q (ps_set newps))"
        by auto
      show ?thesis
        apply (rule exI[of _ d])
        using d True f qn by (auto simp: gb gn bind_def)
    next
      case g: False
      with e2 have g': "value_eq (the_value newps q) (field_default c q) True default_thresh = Inr False"
        by simp
      from Cons.IH[OF _ dn, of newps] Cons.prems(1) obtain d where
        d: "delta_items c base newps ns = Inr d"
        "ps_cls d = ps_cls newps" "ps_attrs d = ps_attrs newps" "ps_meta d = ps_meta newps"
        "ps_locked d = ps_locked newps"
        "\<forall>p. p \<in> ps_set d \<longleftrightarrow>
            (if p \<in> set ns
             then value_eq (the_value base p) (the_value newps p) True default_thresh \<noteq> Inr True
                  \<and> (p \<in> ps_set newps
                       \<or> value_eq (the_value newps p) (field_default c p) True default_thresh = Inr True)
             else p \<in> ps_set newps)"
        by auto
      show ?thesis
        apply (rule exI[of _ d])
        using d f g' qn by (auto simp: gb gn bind_def)
    qed
  qed
qed

lemma merge_items_ok:
  assumes wf: "wf_class c"
  shows "ps_cls newps = c \<Longrightarrow> \<not> ps_locked newps \<Longrightarrow> set ops \<subseteq> set (parameter_names c) \<Longrightarrow>
    set ops \<subseteq> set (parameter_names (ps_cls other)) \<Longrightarrow>
    \<exists>m. merge_items newps other ops = Inr m \<and> ps_cls m = c \<and> \<not> ps_locked m
       \<and> ps_set m = ps_set newps \<union> set ops
       \<and> (\<forall>k. ps_attrs m k = (if k \<in> set ops then Some (the_value other k) else ps_attrs newps k))
       \<and> (\<forall>k. ps_meta m k = (if k \<in> set ops then Some (the_meta other k) else ps_meta newps k))"
proof (induction ops arbitrary: newps)
  case Nil
  then show ?case by simp
next
  case (Cons q ops)
  from Cons.prems have q: "q \<in> set (parameter_names c)" "q \<in> set (parameter_names (ps_cls other))"
    by auto
  have ql: "q \<noteq> ''_locked''" using wf q(1) by (rule wf_not_locked_name)
  let ?n2 = "newps\<lparr>ps_attrs := (ps_attrs newps)(q \<mapsto> the_value other q),
                   ps_meta := (ps_meta newps)(q \<mapsto> the_meta other q),
                   ps_set := insert q (ps_set newps)\<rparr>"
  have step: "merge_items newps other (q # ops) = merge_items ?n2 other ops"
    using Cons.prems(1,2) q ql
    by (simp add: getitem_value meta_value bind_def setitem_def py_setattr_def islocked_def
          object_setattr_def set_meta_def Let_def)
  have "ps_cls ?n2 = c" "\<not> ps_locked ?n2" using Cons.prems by auto
  from Cons.IH[OF this] Cons.prems obtain m where
    m: "merge_items ?n2 other ops = Inr m" "ps_cls m = c" "\<not> ps_locked m"
       "ps_set m = ps_set ?n2 \<union> set ops"
       "\<forall>k. ps_attrs m k = (if k \<in> set ops then Some (the_value other k) else ps_attrs ?n2 k)"
       "\<forall>k. ps_meta m k = (if k \<in> set ops then Some (the_meta other k) else ps_meta ?n2 k)"
    by auto
  show ?case
    apply (rule exI[of _ m])
    using m step by auto
qed

section \<open>Merge after delta\<close>

text \<open>
  C1 (as amended). Let \<open>ps\<close> be an instance of a well-formed class \<open>C\<close> and \<open>base\<close> an
  instance whose class has every parameter of \<open>C\<close>. Suppose \<open>C\<close> can load the explicit
  parameters of both, and in both every parameter of \<open>C\<close> reports a scalar or a table of
  scalars and, when it is not explicit, the default of \<open>C\<close>. Then
  \<open>ps.delta_from(base)\<close> and \<open>base.merged_with\<close> of it both succeed, the result is an
  unlocked instance of \<open>C\<close>, and at every parameter of \<open>C\<close> its value is equal to that
  of \<open>ps\<close> under \<open>value_eq\<close> with the default \<open>all_zero\<close> and \<open>thresh\<close>.
\<close>

theorem merge_delta_inverse:
  assumes wf: "wf_class (ps_cls ps)"
    and sub: "set (parameter_names (ps_cls ps)) \<subseteq> set (parameter_names (ps_cls base))"
    and s1: "serializable (ps_cls ps) ps" and s2: "serializable (ps_cls ps) base"
    and i1: "inherits_defaults (ps_cls ps) ps" and i2: "inherits_defaults (ps_cls ps) base"
  shows "\<exists>d m. delta_from ps base = Inr d \<and> merged_with base d = Inr m
           \<and> ps_cls m = ps_cls ps \<and> \<not> ps_locked m
           \<and> (\<forall>f \<in> set (parameter_names (ps_cls ps)).
                \<exists>v v'. getitem m f = Inr v \<and> getitem ps f = Inr v'
                        \<and> value_eq v v' True default_thresh = Inr True)"
proof -
  let ?C = "ps_cls ps"
  let ?N = "parameter_names ?C"
  have dN: "distinct ?N" using wf by (simp add: wf_class_def parameter_names_def)
  have I1: "comparable (the_value ps p)" "comparable (field_default ?C p)"
      "p \<notin> ps_set ps \<Longrightarrow> the_value ps p = field_default ?C p" if "p \<in> set ?N" for p
    using i1 that by (auto simp: inherits_defaults_def list_all_iff)
  have I2: "comparable (the_value base p)"
      "p \<notin> ps_set base \<Longrightarrow> the_value base p = field_default ?C p" if "p \<in> set ?N" for p
    using i2 that by (auto simp: inherits_defaults_def list_all_iff)
  \<comment> \<open>the copy\<close>
  from copy_ok[OF wf s1] obtain n0 where n0: "copy ps = Inr n0" "ps_cls n0 = ?C" "\<not> ps_locked n0"
     "ps_set n0 = ps_set ps \<inter> set ?N"
     "\<forall>k. ps_attrs n0 k = (if k \<in> ps_set ps \<inter> set ?N then Some (the_value ps k) else None)"
    by blast
  have v0: "the_value n0 p = the_value ps p" if p: "p \<in> set ?N" for p
  proof -
    have "the_value n0 p = (case ps_attrs n0 p of Some v \<Rightarrow> v | None \<Rightarrow> field_default ?C p)"
      using the_value_attrs[of n0 p, unfolded n0(2), OF wf p] .
    then show ?thesis using n0(5) p I1(3)[OF p] by auto
  qed
  \<comment> \<open>the loop of delta_from\<close>
  have "\<forall>p \<in> set ?N. p \<in> set (parameter_names (ps_cls base)) \<and> p \<in> set (parameter_names (ps_cls n0))
        \<and> comparable (the_value base p) \<and> comparable (the_value n0 p)
        \<and> comparable (field_default ?C p)"
    using sub n0(2) I1 I2 v0 by auto
  from delta_items_ok[OF this dN] obtain d where
    d: "delta_items ?C base n0 ?N = Inr d" "ps_cls d = ?C" "ps_attrs d = ps_attrs n0"
       "ps_locked d = ps_locked n0"
       "\<forall>p. p \<in> ps_set d \<longleftrightarrow>
            (if p \<in> set ?N
             then value_eq (the_value base p) (the_value n0 p) True default_thresh \<noteq> Inr True
                  \<and> (p \<in> ps_set n0
                       \<or> value_eq (the_value n0 p) (field_default ?C p) True default_thresh = Inr True)
             else p \<in> ps_set n0)"
    using n0(2) by auto
  have dd: "delta_from ps base = Inr d"
    using n0(1) d(1) by (simp add: delta_from_def bind_def)
  have vd: "the_value d p = the_value ps p" if p: "p \<in> set ?N" for p
    using the_value_cong[of d n0 p] d(2,3,4) n0(2) v0[OF p] by simp
  \<comment> \<open>the merge\<close>
  from init_from_yaml_form[OF wf s2] obtain n1 where
    n1: "bind (to_yaml_form base True) (ParameterSet_init ?C) = Inr n1" "ps_cls n1 = ?C"
        "\<not> ps_locked n1"
        "\<forall>k. ps_attrs n1 k = (if k \<in> ps_set base \<inter> set (parameter_names (ps_cls base)) \<inter> set ?N
                            then Some (the_value base k) else None)"
    by blast
  let ?ops = "filter (\<lambda>op. op \<in> ps_set d) ?N"
  have "set ?ops \<subseteq> set ?N" "set ?ops \<subseteq> set (parameter_names (ps_cls d))"
    using d(2) by auto
  from merge_items_ok[OF wf n1(2,3) this] obtain m where
    m: "merge_items n1 d ?ops = Inr m" "ps_cls m = ?C" "\<not> ps_locked m"
       "\<forall>k. ps_attrs m k = (if k \<in> set ?ops then Some (the_value d k) else ps_attrs n1 k)"
    by blast
  have mm: "merged_with base d = Inr m"
    using n1(1) m(1) d(2) by (auto simp: merged_with_def bind_def split: sum.splits)
  have "\<exists>v v'. getitem m f = Inr v \<and> getitem ps f = Inr v'
                        \<and> value_eq v v' True default_thresh = Inr True"
    if f: "f \<in> set ?N" for f
  proof -
    have gm: "getitem m f = Inr (the_value m f)" using f m(2) by (simp add: getitem_value)
    have gp: "getitem ps f = Inr (the_value ps f)" using f by (simp add: getitem_value)
    have vm: "the_value m f = (case ps_attrs m f of Some v \<Rightarrow> v | None \<Rightarrow> field_default ?C f)"
      using the_value_attrs[of m f, unfolded m(2), OF wf f] .
    have "value_eq (the_value m f) (the_value ps f) True default_thresh = Inr True"
    proof (cases "f \<in> ps_set d")
      case True
      then have "the_value m f = the_value ps f" using vm m(4) f vd[OF f] by simp
      then show ?thesis using value_eq_refl[OF I1(1)[OF f]] by simp
    next
      case False
      have fb: "f \<in> set (parameter_names (ps_cls base))" using sub f by auto
      have "the_value m f = the_value base f"
        using vm m(4) n1(4) f fb False I2(2)[OF f] by auto
      moreover have "value_eq (the_value base f) (the_value ps f) True default_thresh = Inr True"
      proof (rule ccontr)
        assume ne: "value_eq (the_value base f) (the_value ps f) True default_thresh \<noteq> Inr True"
        with False d(5) f v0[OF f] have a: "f \<notin> ps_set n0"
          and b: "value_eq (the_value ps f) (field_default ?C f) True default_thresh \<noteq> Inr True"
          by auto
        from a n0(4) f have "f \<notin> ps_set ps" by simp
        then have "the_value ps f = field_default ?C f" by (rule I1(3)[OF f])
        with b value_eq_refl[OF I1(2)[OF f]] show False by simp
      qed
      ultimately show ?thesis by simp
    qed
    with gm gp show ?thesis by blast
  qed
  with dd mm m(2,3) show ?thesis by blast
qed

lemmas eq_defs = value_eq_def df_value_eq_def simple_value_eq_def zero_norm_def
  approx_eq_def approx_scalar_def pseudo_zero_def pseudo_nan_def default_thresh_def
  column_def field_default_def delta_from_def merged_with_def derived_empty_def sample_c3_def

lemma ser_sample1: "serializable SamplePS sample1"
  by (simp add: serializable_def loadable_def the_value_def the_meta_def eval_defs
      world_df_def wf_frame_def to_dict_def)

lemma inh_sample1: "inherits_defaults SamplePS sample1"
  by (simp add: inherits_defaults_def the_value_def field_default_def eval_defs world_df_def)

lemma inh_sample2: "inherits_defaults SamplePS sample2"
  by (simp add: inherits_defaults_def the_value_def field_default_def eval_defs world_df_def)

theorem merge_delta_inverse_witness:
  "wf_class (ps_cls sample2)
   \<and> set (parameter_names (ps_cls sample2)) \<subseteq> set (parameter_names (ps_cls sample1))
   \<and> serializable (ps_cls sample2) sample2 \<and> serializable (ps_cls sample2) sample1
   \<and> inherits_defaults (ps_cls sample2) sample2 \<and> inherits_defaults (ps_cls sample2) sample1
   \<and> (\<exists>d m. delta_from sample2 sample1 = Inr d \<and> merged_with sample1 d = Inr m
          \<and> (\<exists>v. getitem m ''paramA'' = Inr v
                 \<and> value_eq v (Plain (YScalar (PInt 40))) True default_thresh = Inr True)
          \<and> (\<exists>v. getitem m ''paramB'' = Inr v
                 \<and> value_eq v (Frame world_df) True default_thresh = Inr True))"
proof -
  have c: "ps_cls sample2 = SamplePS" "ps_cls sample1 = SamplePS"
    by (simp_all add: sample2_def sample1_def)
  have h: "wf_class (ps_cls sample2)"
    "set (parameter_names (ps_cls sample2)) \<subseteq> set (parameter_names (ps_cls sample1))"
    "serializable (ps_cls sample2) sample2" "serializable (ps_cls sample2) sample1"
    "inherits_defaults (ps_cls sample2) sample2" "inherits_defaults (ps_cls sample2) sample1"
    by (simp_all add: c wf_SamplePS ser_sample1 ser_sample2 inh_sample1 inh_sample2)
  have n: "''paramA'' \<in> set (parameter_names (ps_cls sample2))"
    "''paramB'' \<in> set (parameter_names (ps_cls sample2))"
    and g: "getitem sample2 ''paramA'' = Inr (Plain (YScalar (PInt 40)))"
    "getitem sample2 ''paramB'' = Inr (Frame world_df)"
    by (simp_all add: eval_defs)
  from merge_delta_inverse [OF h] obtain d m where
    r: "delta_from sample2 sample1 = Inr d" "merged_with sample1 d = Inr m"
       "\<forall>f \<in> set (parameter_names (ps_cls sample2)).
                \<exists>v v'. getitem m f = Inr v \<and> getitem sample2 f = Inr v'
                        \<and> value_eq v v' True default_thresh = Inr True"
    by blast
  from r(3) n g have "\<exists>v. getitem m ''paramA'' = Inr v
                 \<and> value_eq v (Plain (YScalar (PInt 40))) True default_thresh = Inr True"
    "\<exists>v. getitem m ''paramB'' = Inr v
                 \<and> value_eq v (Frame world_df) True default_thresh = Inr True"
    by fastforce+
  with r(1,2) h show ?thesis by blast
qed

text \<open>
  C1 as stated fails in three ways. With \<open>base = DerivedPS("")\<close> and
  \<open>ps = SamplePS("paramC: 3")\<close> the delta drops \<open>paramC\<close> (3 equals the default of
  \<open>DerivedPS\<close>) and the merge reports the default of \<open>SamplePS\<close>, 3.14. With
  \<open>ps = ps2.delta_from(ps1)\<close> of the tests, whose \<open>paramB\<close> holds a table without being
  explicit, the merge onto \<open>SamplePS("")\<close> reports None for \<open>paramB\<close>. And an instance
  whose tabular parameter was set to 10 has no delta at all (\<open>ValueError\<close>).
\<close>

theorem merge_delta_not_inverse:
  "ParameterSet_init DerivedPS [] = Inr derived_empty
   \<and> ParameterSet_init SamplePS [(''paramC'', YScalar (PInt 3))] = Inr sample_c3
   \<and> parameter_names (ps_cls sample_c3) = parameter_names (ps_cls derived_empty)
   \<and> bind (delta_from sample_c3 derived_empty) (\<lambda>d.
      bind (merged_with derived_empty d) (\<lambda>m.
      bind (getitem m ''paramC'') (\<lambda>v.
      bind (getitem sample_c3 ''paramC'') (\<lambda>v'.
        Inr (v, v', value_eq v v' True default_thresh)))))
      = Inr (Plain (YScalar (PFloat (314 / 100))), Plain (YScalar (PInt 3)), Inr False)
   \<and> bind (delta_from sample2 sample1) (\<lambda>ps.
      bind (delta_from ps sample_empty) (\<lambda>d.
      bind (merged_with sample_empty d) (\<lambda>m.
      bind (getitem m ''paramB'') (\<lambda>v.
      bind (getitem ps ''paramB'') (\<lambda>v'.
        Inr (v, v', value_eq v v' True default_thresh))))))
      = Inr (Plain (YScalar PNone), Frame world_df, Inr False)
   \<and> delta_from sample_b10 sample_empty = Inl ValueError"
proof -
  have a: "ParameterSet_init DerivedPS [] = Inr derived_empty"
    "ParameterSet_init SamplePS [(''paramC'', YScalar (PInt 3))] = Inr sample_c3"
    "parameter_names (ps_cls sample_c3) = parameter_names (ps_cls derived_empty)"
    by (simp_all add: eval_defs eq_defs)
  have b: "bind (delta_from sample_c3 derived_empty) (\<lambda>d.
      bind (merged_with derived_empty d) (\<lambda>m.
      bind (getitem m ''paramC'') (\<lambda>v.
      bind (getitem sample_c3 ''paramC'') (\<lambda>v'.
        Inr (v, v', value_eq v v' True default_thresh)))))
      = Inr (Plain (YScalar (PFloat (314 / 100))), Plain (YScalar (PInt 3)), Inr False)"
    by (simp add: eval_defs eq_defs)
  have c: "bind (delta_from sample2 sample1) (\<lambda>ps.
      bind (delta_from ps sample_empty) (\<lambda>d.
      bind (merged_with sample_empty d) (\<lambda>m.
      bind (getitem m ''paramB'') (\<lambda>v.
      bind (getitem ps ''paramB'') (\<lambda>v'.
        Inr (v, v', value_eq v v' True default_thresh))))))
      = Inr (Plain (YScalar PNone), Frame world_df, Inr False)"
    by (simp add: eval_defs eq_defs to_dict_def world_df_def world_raw_def from_dict_def
          index_union_def)
  have d: "delta_from sample_b10 sample_empty = Inl ValueError"
    by (simp add: eval_defs eq_defs from_dict_def)
  from a b c d show ?thesis by simp
qed

end
